theory Spec2Isabelle
  imports Complex_Main "HOL-Library.Sublist"
begin

section \<open>Number model and configuration\<close>

text \<open>
  The game computes with Python floats and ints.  Floats are modelled as real numbers
  (no rounding, no overflow), ints as unbounded integers.  In that model the only
  exception a function can raise is the division by zero of \<open>Vector3.__truediv__\<close>;
  it is a value of the result type.

  For \<open>Vector3.length\<close> and \<open>Vector3.normalize\<close> a second model, the functions named
  \<open>_ranged\<close>, adds the range of IEEE doubles to the real numbers: a square that is too
  large raises \<open>OverflowError\<close>, a square that is too small becomes zero, and a sum
  that is too large becomes infinity.  Rounding within the range is not modelled.
\<close>

datatype error = ZeroDivisionError | OverflowError

definition bind_err :: "error + 'a \<Rightarrow> ('a \<Rightarrow> error + 'b) \<Rightarrow> error + 'b" where
  "bind_err m f = (case m of Inl e \<Rightarrow> Inl e | Inr v \<Rightarrow> f v)"

text \<open>config.py\<close>

definition PLAYER_STARTING_LIVES :: int where "PLAYER_STARTING_LIVES = 3"
definition PLAYER_SHOOT_COOLDOWN :: real where "PLAYER_SHOOT_COOLDOWN = 0.3"
definition SHIP_ROLL_SENSITIVITY :: real where "SHIP_ROLL_SENSITIVITY = 1.0"
definition SHIP_PITCH_SENSITIVITY :: real where "SHIP_PITCH_SENSITIVITY = 0.5"
definition SHIP_ANIMATION_DAMPING :: real where "SHIP_ANIMATION_DAMPING = 10.0"
definition MAX_SHIP_ROLL :: real where "MAX_SHIP_ROLL = 15.0"
definition MAX_SHIP_PITCH_OFFSET :: real where "MAX_SHIP_PITCH_OFFSET = 8.0"
definition ENEMY_SPEED :: real where "ENEMY_SPEED = 15.0"
definition ENEMY_SPAWN_DISTANCE :: real where "ENEMY_SPAWN_DISTANCE = 100.0"
definition ENEMY_SPAWN_INTERVAL :: real where "ENEMY_SPAWN_INTERVAL = 3.0"
definition ENEMY_SHOOT_INTERVAL :: real where "ENEMY_SHOOT_INTERVAL = 2.0"
definition ENEMY_SHOOT_RANGE :: real where "ENEMY_SHOOT_RANGE = 50.0"
definition ENEMY_HEALTH :: int where "ENEMY_HEALTH = 1"
definition ENEMY_POINTS :: int where "ENEMY_POINTS = 1"
definition METEORITE_COUNT :: nat where "METEORITE_COUNT = 10"
definition METEORITE_COLLISION_PENALTY :: int where "METEORITE_COLLISION_PENALTY = - 1"
definition LIFE_SPHERE_SIZE :: real where "LIFE_SPHERE_SIZE = 1.5"
definition LIFE_SPHERE_SPAWN_INTERVAL :: real where "LIFE_SPHERE_SPAWN_INTERVAL = 10.0"
definition LIFE_SPHERE_ROTATION_SPEED :: real where "LIFE_SPHERE_ROTATION_SPEED = 2.0"
definition LASER_SPEED :: real where "LASER_SPEED = 80.0"
definition LASER_LIFETIME :: real where "LASER_LIFETIME = 5.0"
definition COLLISION_PUSH_BACK :: real where "COLLISION_PUSH_BACK = 5.0"

section \<open>utils/math\_utils.py: Vector3\<close>

datatype Vector3 = Vector3 (vx: real) (vy: real) (vz: real)

definition Vector3_add :: "Vector3 \<Rightarrow> Vector3 \<Rightarrow> Vector3" where
  "Vector3_add a b = Vector3 (vx a + vx b) (vy a + vy b) (vz a + vz b)"

definition Vector3_sub :: "Vector3 \<Rightarrow> Vector3 \<Rightarrow> Vector3" where
  "Vector3_sub a b = Vector3 (vx a - vx b) (vy a - vy b) (vz a - vz b)"

definition Vector3_mul :: "Vector3 \<Rightarrow> real \<Rightarrow> Vector3" where
  "Vector3_mul a s = Vector3 (vx a * s) (vy a * s) (vz a * s)"

text \<open>Python's float division raises ZeroDivisionError on a zero divisor.\<close>

definition Vector3_truediv :: "Vector3 \<Rightarrow> real \<Rightarrow> error + Vector3" where
  "Vector3_truediv a s =
     (if s = 0 then Inl ZeroDivisionError
      else Inr (Vector3 (vx a / s) (vy a / s) (vz a / s)))"

definition Vector3_length :: "Vector3 \<Rightarrow> real" where
  "Vector3_length a = sqrt ((vx a)\<^sup>2 + (vy a)\<^sup>2 + (vz a)\<^sup>2)"

definition Vector3_normalize :: "Vector3 \<Rightarrow> error + Vector3" where
  "Vector3_normalize a =
     (let len = Vector3_length a
      in if len > 0 then Vector3_truediv a len else Inr (Vector3 0 0 0))"

definition Vector3_distance_to :: "Vector3 \<Rightarrow> Vector3 \<Rightarrow> real" where
  "Vector3_distance_to a b = Vector3_length (Vector3_sub a b)"

definition Vector3_copy :: "Vector3 \<Rightarrow> Vector3" where
  "Vector3_copy a = Vector3 (vx a) (vy a) (vz a)"

subsection \<open>Vector3.length and normalize within the range of doubles\<close>








text \<open>\<open>math.atan2(y, x)\<close>, used for the render-only rotation of a projectile.\<close>

definition atan2 :: "real \<Rightarrow> real \<Rightarrow> real" where
  "atan2 b a =
     (if a > 0 then arctan (b / a)
      else if a < 0 \<and> b \<ge> 0 then arctan (b / a) + pi
      else if a < 0 then arctan (b / a) - pi
      else if b > 0 then pi / 2
      else if b < 0 then - pi / 2
      else 0)"

section \<open>entities/entity.py\<close>

text \<open>
  The render model handle is opaque to the simulation and left out.  The subclasses
  extend this record, as the Python classes extend \<open>Entity\<close>.
\<close>

record Entity =
  position :: Vector3
  velocity :: Vector3
  rotation :: "real \<times> real \<times> real"
  scale :: "real \<times> real \<times> real"
  alive :: bool
  radius :: real

definition Entity_update :: "'a Entity_scheme \<Rightarrow> real \<Rightarrow> 'a Entity_scheme" where
  "Entity_update e dt = e\<lparr>position := Vector3_add (position e) (Vector3_mul (velocity e) dt)\<rparr>"

definition get_radius :: "'a Entity_scheme \<Rightarrow> real" where
  "get_radius e = radius e"

definition rotate :: "'a Entity_scheme \<Rightarrow> real \<Rightarrow> real \<Rightarrow> real \<Rightarrow> 'a Entity_scheme" where
  "rotate e drx dry drz =
     (case rotation e of (rx, ry, rz) \<Rightarrow> e\<lparr>rotation := (rx + drx, ry + dry, rz + drz)\<rparr>)"

definition destroy :: "'a Entity_scheme \<Rightarrow> 'a Entity_scheme" where
  "destroy e = e\<lparr>alive := False\<rparr>"

definition is_alive :: "'a Entity_scheme \<Rightarrow> bool" where
  "is_alive e = alive e"

section \<open>engine/physics.py\<close>

datatype BoundingSphere = BoundingSphere (center: Vector3) (sphere_radius: real)

definition intersects :: "BoundingSphere \<Rightarrow> BoundingSphere \<Rightarrow> bool" where
  "intersects s other =
     (let distance = Vector3_distance_to (center s) (center other)
      in distance < sphere_radius s + sphere_radius other)"

definition check_collision :: "'a Entity_scheme \<Rightarrow> 'b Entity_scheme \<Rightarrow> bool" where
  "check_collision entity1 entity2 =
     (let sphere1 = BoundingSphere (position entity1) (get_radius entity1);
          sphere2 = BoundingSphere (position entity2) (get_radius entity2)
      in intersects sphere1 sphere2)"

text \<open>
  \<open>resolve_collision\<close> mutates \<open>entity1\<close> only; the result is the pair of both
  entities after the call.
\<close>

definition resolve_collision ::
  "'a Entity_scheme \<Rightarrow> 'b Entity_scheme \<Rightarrow> real \<Rightarrow> error + ('a Entity_scheme \<times> 'b Entity_scheme)" where
  "resolve_collision entity1 entity2 push_distance =
     (let direction = Vector3_sub (position entity1) (position entity2)
      in bind_err
           (if Vector3_length direction > 0 then Vector3_normalize direction
            else Inr (Vector3 1 0 0))
           (\<lambda>d. Inr (entity1\<lparr>position :=
                          Vector3_add (position entity1) (Vector3_mul d push_distance)\<rparr>,
                      entity2)))"

section \<open>entities/player.py\<close>

record Player = Entity +
  lives :: int
  shoot_cooldown :: real
  damage_flash_timer :: real
  can_shoot :: bool

definition Player_init :: "Vector3 option \<Rightarrow> Player" where
  "Player_init pos =
     \<lparr>position = (case pos of Some p \<Rightarrow> p | None \<Rightarrow> Vector3 0 0 0),
      velocity = Vector3 0 0 0, rotation = (0, 0, 0), scale = (1, 1, 1),
      alive = True, radius = 2.0,
      lives = PLAYER_STARTING_LIVES, shoot_cooldown = 0, damage_flash_timer = 0,
      can_shoot = True\<rparr>"

definition Player_update :: "Player \<Rightarrow> real \<Rightarrow> Player" where
  "Player_update p dt =
     (let p1 = Entity_update p dt;
          p2 = (if shoot_cooldown p1 > 0
                then (let q = p1\<lparr>shoot_cooldown := shoot_cooldown p1 - dt\<rparr>
                      in if shoot_cooldown q \<le> 0 then q\<lparr>can_shoot := True\<rparr> else q)
                else p1)
      in if damage_flash_timer p2 > 0
         then p2\<lparr>damage_flash_timer := damage_flash_timer p2 - dt\<rparr>
         else p2)"

definition Player_shoot :: "Player \<Rightarrow> Player \<times> bool" where
  "Player_shoot p =
     (if can_shoot p
      then (p\<lparr>can_shoot := False, shoot_cooldown := PLAYER_SHOOT_COOLDOWN\<rparr>, True)
      else (p, False))"

definition Player_take_damage :: "Player \<Rightarrow> Player" where
  "Player_take_damage p =
     (let q = p\<lparr>lives := lives p - 1, damage_flash_timer := 0.5\<rparr>
      in if lives q \<le> 0 then destroy q else q)"

definition add_life :: "Player \<Rightarrow> Player" where
  "add_life p = p\<lparr>lives := lives p + 1\<rparr>"

text \<open>A sequence of calls on one player, for the shooting state machine.\<close>

datatype player_call = Shoot | Update real

fun run_calls :: "Player \<Rightarrow> player_call list \<Rightarrow> Player" where
  "run_calls p [] = p"
| "run_calls p (Shoot # cs) = run_calls (fst (Player_shoot p)) cs"
| "run_calls p (Update dt # cs) = run_calls (Player_update p dt) cs"

fun elapsed :: "player_call list \<Rightarrow> real" where
  "elapsed [] = 0"
| "elapsed (Shoot # cs) = elapsed cs"
| "elapsed (Update dt # cs) = dt + elapsed cs"

fun dts_nonneg :: "player_call list \<Rightarrow> bool" where
  "dts_nonneg [] = True"
| "dts_nonneg (Shoot # cs) = dts_nonneg cs"
| "dts_nonneg (Update dt # cs) = (0 \<le> dt \<and> dts_nonneg cs)"

section \<open>entities/enemy.py\<close>

record Enemy = Entity +
  health :: int
  points :: int
  shoot_timer :: real
  target_position :: "Vector3 option"

text \<open>\<open>t0\<close> is the draw \<open>random.uniform(0, ENEMY_SHOOT_INTERVAL)\<close>.\<close>

definition Enemy_init :: "Vector3 option \<Rightarrow> real \<Rightarrow> Enemy" where
  "Enemy_init pos t0 =
     \<lparr>position = (case pos of Some p \<Rightarrow> p | None \<Rightarrow> Vector3 0 0 0),
      velocity = Vector3 0 0 0, rotation = (0, 0, 0), scale = (1, 1, 1),
      alive = True, radius = 1.5,
      health = ENEMY_HEALTH, points = ENEMY_POINTS, shoot_timer = t0,
      target_position = None\<rparr>"

definition move_toward_target :: "Enemy \<Rightarrow> Vector3 \<Rightarrow> real \<Rightarrow> error + Enemy" where
  "move_toward_target e target_pos dt =
     (let direction = Vector3_sub target_pos (position e);
          distance = Vector3_length direction
      in if distance > 10.0
         then bind_err (Vector3_normalize direction)
                (\<lambda>d. Inr (e\<lparr>velocity := Vector3_mul d ENEMY_SPEED\<rparr>))
         else Inr (e\<lparr>velocity := Vector3 0 0 0\<rparr>))"

definition Enemy_update :: "Enemy \<Rightarrow> real \<Rightarrow> Vector3 option \<Rightarrow> error + Enemy" where
  "Enemy_update e dt player_position =
     bind_err
       (case player_position of
          Some pp \<Rightarrow> move_toward_target (Entity_update e dt) pp dt
        | None \<Rightarrow> Inr (Entity_update e dt))
       (\<lambda>e1. Inr (rotate (e1\<lparr>shoot_timer := shoot_timer e1 - dt\<rparr>) 0 (dt * 0.5) 0))"

definition Enemy_can_shoot :: "Enemy \<Rightarrow> Vector3 \<Rightarrow> Enemy \<times> bool" where
  "Enemy_can_shoot e player_position =
     (if shoot_timer e \<le> 0
      then (let distance = Vector3_distance_to (position e) player_position
            in if distance < ENEMY_SHOOT_RANGE
               then (e\<lparr>shoot_timer := ENEMY_SHOOT_INTERVAL\<rparr>, True)
               else (e, False))
      else (e, False))"

definition get_shoot_direction :: "Enemy \<Rightarrow> Vector3 \<Rightarrow> error + Vector3" where
  "get_shoot_direction e player_position =
     Vector3_normalize (Vector3_sub player_position (position e))"

definition Enemy_take_damage :: "Enemy \<Rightarrow> int \<Rightarrow> Enemy" where
  "Enemy_take_damage e damage =
     (let q = e\<lparr>health := health e - damage\<rparr>
      in if health q \<le> 0 then destroy q else q)"

definition get_points :: "Enemy \<Rightarrow> int" where
  "get_points e = points e"

section \<open>entities/meteorite.py, life\_sphere.py, projectile.py\<close>

record Meteorite = Entity +
  msize :: real
  rotation_speed :: "real \<times> real \<times> real"

text \<open>
  \<open>sz\<close>, \<open>rs\<close> and \<open>drift\<close> are the random draws of the constructor: the size, the
  rotation speeds and the drift velocity.
\<close>

definition Meteorite_init ::
  "Vector3 option \<Rightarrow> real \<Rightarrow> real \<times> real \<times> real \<Rightarrow> Vector3 \<Rightarrow> Meteorite" where
  "Meteorite_init pos sz rs drift =
     \<lparr>position = (case pos of Some p \<Rightarrow> p | None \<Rightarrow> Vector3 0 0 0),
      velocity = drift, rotation = (0, 0, 0), scale = (sz, sz, sz),
      alive = True, radius = sz * 1.2, msize = sz, rotation_speed = rs\<rparr>"

definition Meteorite_update :: "Meteorite \<Rightarrow> real \<Rightarrow> Meteorite" where
  "Meteorite_update m dt =
     (case rotation_speed m of
        (sx, sy, sz) \<Rightarrow> rotate (Entity_update m dt) (sx * dt) (sy * dt) (sz * dt))"

definition is_indestructible :: "Meteorite \<Rightarrow> bool" where
  "is_indestructible m = True"

record LifeSphere = Entity +
  collected :: bool

definition LifeSphere_init :: "Vector3 option \<Rightarrow> LifeSphere" where
  "LifeSphere_init pos =
     \<lparr>position = (case pos of Some p \<Rightarrow> p | None \<Rightarrow> Vector3 0 0 0),
      velocity = Vector3 0 0 0, rotation = (0, 0, 0),
      scale = (LIFE_SPHERE_SIZE, LIFE_SPHERE_SIZE, LIFE_SPHERE_SIZE),
      alive = True, radius = LIFE_SPHERE_SIZE, collected = False\<rparr>"

text \<open>
  \<open>ticks\<close> is the value \<open>pygame.time.get_ticks()\<close> returns (milliseconds of wall-clock
  time) when the sphere is updated.
\<close>

definition LifeSphere_update :: "LifeSphere \<Rightarrow> real \<Rightarrow> int \<Rightarrow> LifeSphere" where
  "LifeSphere_update s dt ticks =
     (let s1 = Entity_update s dt;
          s2 = rotate s1 (dt * LIFE_SPHERE_ROTATION_SPEED)
                 (dt * LIFE_SPHERE_ROTATION_SPEED * 1.5)
                 (dt * LIFE_SPHERE_ROTATION_SPEED * 0.8);
          p = position s2
      in s2\<lparr>position := Vector3 (vx p) (vy p + sin (of_int ticks * 0.002) * 0.01) (vz p)\<rparr>)"

definition collect :: "LifeSphere \<Rightarrow> LifeSphere" where
  "collect s = destroy (s\<lparr>collected := True\<rparr>)"

record Projectile = Entity +
  owner_type :: string
  direction :: Vector3
  lifetime :: real
  age :: real

definition set_rotation_from_direction :: "Projectile \<Rightarrow> Projectile" where
  "set_rotation_from_direction p =
     (if Vector3_length (direction p) > 0
      then (let yaw_angle = atan2 (vx (direction p)) (vz (direction p));
                xz_length = sqrt ((vx (direction p))\<^sup>2 + (vz (direction p))\<^sup>2);
                pitch_angle = atan2 (vy (direction p)) xz_length
            in p\<lparr>rotation := (pitch_angle, yaw_angle, 0)\<rparr>)
      else p)"

definition Projectile_init :: "Vector3 \<Rightarrow> Vector3 \<Rightarrow> string \<Rightarrow> error + Projectile" where
  "Projectile_init pos dir owner =
     bind_err (Vector3_normalize dir)
       (\<lambda>d. Inr (set_rotation_from_direction
           \<lparr>position = pos, velocity = Vector3_mul d LASER_SPEED, rotation = (0, 0, 0),
            scale = (1, 1, 1), alive = True, radius = 0.3,
            owner_type = owner, direction = d, lifetime = LASER_LIFETIME, age = 0\<rparr>))"

definition Projectile_update :: "Projectile \<Rightarrow> real \<Rightarrow> Projectile" where
  "Projectile_update p dt =
     (let p1 = Entity_update p dt;
          p2 = p1\<lparr>age := age p1 + dt\<rparr>
      in if age p2 \<ge> lifetime p2 then destroy p2 else p2)"

definition is_player_projectile :: "Projectile \<Rightarrow> bool" where
  "is_player_projectile p = (owner_type p = ''player'')"

definition is_enemy_projectile :: "Projectile \<Rightarrow> bool" where
  "is_enemy_projectile p = (owner_type p = ''enemy'')"

section \<open>engine/camera.py\<close>

record Camera =
  cam_position :: Vector3
  yaw :: real
  pitch :: real
  front :: Vector3

text \<open>
  Of the three direction vectors only \<open>front\<close> is kept; \<open>right\<close> and \<open>up\<close> are read
  by the movement methods alone.
\<close>

definition radians :: "real \<Rightarrow> real" where
  "radians d = d * pi / 180"

definition update_vectors :: "Camera \<Rightarrow> error + Camera" where
  "update_vectors c =
     (let front_x = cos (radians (yaw c)) * cos (radians (pitch c));
          front_y = sin (radians (pitch c));
          front_z = sin (radians (yaw c)) * cos (radians (pitch c))
      in bind_err (Vector3_normalize (Vector3 front_x front_y front_z))
           (\<lambda>f. Inr (c\<lparr>front := f\<rparr>)))"

definition Camera_init :: "Vector3 option \<Rightarrow> real \<Rightarrow> real \<Rightarrow> error + Camera" where
  "Camera_init pos yaw0 pitch0 =
     update_vectors
       \<lparr>cam_position = (case pos of Some p \<Rightarrow> p | None \<Rightarrow> Vector3 0 0 0),
        yaw = yaw0, pitch = pitch0, front = Vector3 0 0 (- 1)\<rparr>"

definition get_forward_vector :: "Camera \<Rightarrow> Vector3" where
  "get_forward_vector c = Vector3_copy (front c)"

section \<open>main.py: the simulation state\<close>

text \<open>
  The fields of \<open>Game\<close> that \<open>Game.update\<close> reads or writes.  Window, renderer, HUD
  and clock are outside the simulation.
\<close>

record Game =
  camera :: Camera
  previous_camera_yaw :: real
  previous_camera_pitch :: real
  ship_roll :: real
  ship_pitch_offset :: real
  running :: bool
  paused :: bool
  game_over :: bool
  score :: int
  player :: Player
  enemies :: "Enemy list"
  meteorites :: "Meteorite list"
  life_spheres :: "LifeSphere list"
  projectiles :: "Projectile list"
  enemy_spawn_timer :: real
  life_sphere_spawn_timer :: real
  cockpit_sway :: real

text \<open>
  What one call of \<open>Game.update\<close> takes from outside the simulation: the wall clock
  sampled at the update of the i-th life sphere, the keyboard state, and the draws of
  the random generator used when an enemy or a life sphere is spawned.
\<close>

record Env =
  ticks_at :: "nat \<Rightarrow> int"
  key_a :: bool
  key_d :: bool
  enemy_rand_x :: real
  enemy_rand_y :: real
  enemy_rand_timer :: real
  sphere_rand_x :: real
  sphere_rand_y :: real
  sphere_rand_z :: real

definition spawn_enemy :: "Game \<Rightarrow> Env \<Rightarrow> Game" where
  "spawn_enemy g env =
     (let distance = ENEMY_SPAWN_DISTANCE;
          pos = Vector3 (vx (cam_position (camera g)) + distance * enemy_rand_x env)
                        (vy (cam_position (camera g)) + enemy_rand_y env)
                        (vz (cam_position (camera g)) - distance)
      in g\<lparr>enemies := enemies g @ [Enemy_init (Some pos) (enemy_rand_timer env)]\<rparr>)"

definition spawn_life_sphere :: "Game \<Rightarrow> Env \<Rightarrow> Game" where
  "spawn_life_sphere g env =
     (let pos = Vector3 (vx (cam_position (camera g)) + sphere_rand_x env)
                        (vy (cam_position (camera g)) + sphere_rand_y env)
                        (vz (cam_position (camera g)) - sphere_rand_z env)
      in g\<lparr>life_spheres := life_spheres g @ [LifeSphere_init (Some pos)]\<rparr>)"

definition shoot_enemy_laser :: "Game \<Rightarrow> Enemy \<Rightarrow> error + Game" where
  "shoot_enemy_laser g enemy =
     bind_err (get_shoot_direction enemy (position (player g)))
       (\<lambda>dir. bind_err (Projectile_init (Vector3_copy (position enemy)) dir ''enemy'')
          (\<lambda>pr. Inr (g\<lparr>projectiles := projectiles g @ [pr]\<rparr>)))"

subsection \<open>Ship animation\<close>

text \<open>The two \<open>while\<close> loops that wrap the yaw delta.\<close>

function wrap_above :: "real \<Rightarrow> real" where
  "wrap_above yaw_delta = (if yaw_delta > 180 then wrap_above (yaw_delta - 360) else yaw_delta)"
  by pat_completeness auto
termination
proof (relation "measure (\<lambda>d. nat \<lceil>d\<rceil>)")
  show "wf (measure (\<lambda>d::real. nat \<lceil>d\<rceil>))" by simp
next
  fix yaw_delta :: real
  assume "180 < yaw_delta"
  then have "180 < \<lceil>yaw_delta\<rceil>" by (simp add: less_ceiling_iff)
  then show "(yaw_delta - 360, yaw_delta) \<in> measure (\<lambda>d. nat \<lceil>d\<rceil>)" by simp
qed

function wrap_below :: "real \<Rightarrow> real" where
  "wrap_below yaw_delta = (if yaw_delta < - 180 then wrap_below (yaw_delta + 360) else yaw_delta)"
  by pat_completeness auto
termination
proof (relation "measure (\<lambda>d. nat \<lceil>- d\<rceil>)")
  show "wf (measure (\<lambda>d::real. nat \<lceil>- d\<rceil>))" by simp
next
  fix yaw_delta :: real
  assume "yaw_delta < - 180"
  then have "180 < \<lceil>- yaw_delta\<rceil>" by (simp add: less_ceiling_iff)
  moreover have "\<lceil>- (yaw_delta + 360)\<rceil> = \<lceil>- yaw_delta\<rceil> - 360"
    by (simp add: algebra_simps)
  ultimately show "(yaw_delta + 360, yaw_delta) \<in> measure (\<lambda>d. nat \<lceil>- d\<rceil>)" by simp
qed

declare wrap_above.simps [simp del]
declare wrap_below.simps [simp del]

definition normalize_yaw_delta :: "real \<Rightarrow> real" where
  "normalize_yaw_delta yaw_delta = wrap_below (wrap_above yaw_delta)"

definition update_ship_animation :: "Game \<Rightarrow> Env \<Rightarrow> real \<Rightarrow> Game" where
  "update_ship_animation g env dt =
     (let yaw_delta0 = yaw (camera g) - previous_camera_yaw g;
          pitch_delta0 = pitch (camera g) - previous_camera_pitch g;
          yaw_delta1 = normalize_yaw_delta yaw_delta0;
          yaw_delta = max (- 10) (min 10 yaw_delta1);
          pitch_delta = max (- 10) (min 10 pitch_delta0);
          target_roll0 = - yaw_delta * SHIP_ROLL_SENSITIVITY;
          target_roll = max (- MAX_SHIP_ROLL) (min MAX_SHIP_ROLL target_roll0);
          damping_factor = min 1.0 (SHIP_ANIMATION_DAMPING * dt);
          roll1 = ship_roll g + (target_roll - ship_roll g) * damping_factor;
          roll2 = max (- MAX_SHIP_ROLL) (min MAX_SHIP_ROLL roll1);
          target_pitch_offset0 = pitch_delta * SHIP_PITCH_SENSITIVITY;
          target_pitch_offset =
            max (- MAX_SHIP_PITCH_OFFSET) (min MAX_SHIP_PITCH_OFFSET target_pitch_offset0);
          pitch1 = ship_pitch_offset g + (target_pitch_offset - ship_pitch_offset g) * damping_factor;
          pitch2 = max (- MAX_SHIP_PITCH_OFFSET) (min MAX_SHIP_PITCH_OFFSET pitch1);
          roll3 = (if \<bar>yaw_delta\<bar> < 0.5 then roll2 * 0.92 else roll2);
          pitch3 = (if \<bar>pitch_delta\<bar> < 0.5 then pitch2 * 0.92 else pitch2);
          roll4 = (if \<bar>roll3\<bar> < 0.1 then 0.0 else roll3);
          pitch4 = (if \<bar>pitch3\<bar> < 0.1 then 0.0 else pitch3);
          target_sway = (if key_a env then - 40.0 else if key_d env then 40.0 else 0.0);
          sway_speed = 5.0 * dt
      in g\<lparr>ship_roll := roll4, ship_pitch_offset := pitch4,
           previous_camera_yaw := yaw (camera g),
           previous_camera_pitch := pitch (camera g),
           cockpit_sway := cockpit_sway g + (target_sway - cockpit_sway g) * sway_speed\<rparr>)"

subsection \<open>Entity updates and spawning\<close>

text \<open>
  The loop over \<open>self.enemies[:]\<close> in \<open>Game.update\<close>: each enemy is updated in place
  and may fire, which appends a projectile to the game.
\<close>

fun update_enemies :: "Enemy list \<Rightarrow> real \<Rightarrow> Game \<Rightarrow> error + (Enemy list \<times> Game)" where
  "update_enemies [] dt g = Inr ([], g)"
| "update_enemies (e # es) dt g =
     bind_err (Enemy_update e dt (Some (position (player g))))
       (\<lambda>e1. case Enemy_can_shoot e1 (position (player g)) of
          (e2, fired) \<Rightarrow>
            bind_err (if fired then shoot_enemy_laser g e2 else Inr g)
              (\<lambda>g1. bind_err (update_enemies es dt g1)
                 (\<lambda>(es', g2). Inr (e2 # es', g2))))"

definition update_life_spheres :: "LifeSphere list \<Rightarrow> real \<Rightarrow> Env \<Rightarrow> LifeSphere list" where
  "update_life_spheres ss dt env =
     map (\<lambda>(i, s). LifeSphere_update s dt (ticks_at env i)) (enumerate 0 ss)"

definition update_spawning :: "Game \<Rightarrow> Env \<Rightarrow> real \<Rightarrow> Game" where
  "update_spawning g env dt =
     (let g1 = g\<lparr>enemy_spawn_timer := enemy_spawn_timer g + dt\<rparr>;
          g2 = (if enemy_spawn_timer g1 \<ge> ENEMY_SPAWN_INTERVAL
                then spawn_enemy (g1\<lparr>enemy_spawn_timer := 0\<rparr>) env else g1);
          g3 = g2\<lparr>life_sphere_spawn_timer := life_sphere_spawn_timer g2 + dt\<rparr>
      in if life_sphere_spawn_timer g3 \<ge> LIFE_SPHERE_SPAWN_INTERVAL
         then spawn_life_sphere (g3\<lparr>life_sphere_spawn_timer := 0\<rparr>) env else g3)"

subsection \<open>Collision handling\<close>

text \<open>Player vs meteorites: penalty, push-back, camera snapped to the player.\<close>

fun player_vs_meteorites :: "Meteorite list \<Rightarrow> Game \<Rightarrow> error + Game" where
  "player_vs_meteorites [] g = Inr g"
| "player_vs_meteorites (m # ms) g =
     (if check_collision (player g) m
      then bind_err (resolve_collision (player g) m COLLISION_PUSH_BACK)
             (\<lambda>(p, m'). player_vs_meteorites ms
                (g\<lparr>score := score g + METEORITE_COLLISION_PENALTY, player := p,
                   camera := (camera g)\<lparr>cam_position := Vector3_copy (position p)\<rparr>\<rparr>))
      else player_vs_meteorites ms g)"

text \<open>Player vs life spheres and player vs enemies: every element of the list is tested.\<close>

fun player_vs_life_spheres :: "LifeSphere list \<Rightarrow> Player \<Rightarrow> Player \<times> LifeSphere list" where
  "player_vs_life_spheres [] p = (p, [])"
| "player_vs_life_spheres (s # ss) p =
     (if check_collision p s
      then (case player_vs_life_spheres ss (add_life p) of (p', ss') \<Rightarrow> (p', collect s # ss'))
      else (case player_vs_life_spheres ss p of (p', ss') \<Rightarrow> (p', s # ss')))"

fun player_vs_enemies :: "Enemy list \<Rightarrow> Player \<Rightarrow> Player \<times> Enemy list" where
  "player_vs_enemies [] p = (p, [])"
| "player_vs_enemies (e # es) p =
     (if check_collision p e
      then (case player_vs_enemies es (Player_take_damage p) of (p', es') \<Rightarrow> (p', destroy e # es'))
      else (case player_vs_enemies es p of (p', es') \<Rightarrow> (p', e # es')))"

text \<open>
  The three inner loops for a player projectile.  Each one stops at the first hit
  (\<open>break\<close>); the elements after it are not tested.
\<close>

fun projectile_vs_enemies :: "Projectile \<Rightarrow> Enemy list \<Rightarrow> int \<Rightarrow> Projectile \<times> Enemy list \<times> int" where
  "projectile_vs_enemies pr [] sc = (pr, [], sc)"
| "projectile_vs_enemies pr (e # es) sc =
     (if check_collision pr e
      then (let e' = Enemy_take_damage e 1
            in (destroy pr, e' # es, if \<not> is_alive e' then sc + get_points e' else sc))
      else (case projectile_vs_enemies pr es sc of (pr', es', sc') \<Rightarrow> (pr', e # es', sc')))"

fun projectile_vs_life_spheres ::
  "Projectile \<Rightarrow> LifeSphere list \<Rightarrow> Player \<Rightarrow> Projectile \<times> LifeSphere list \<times> Player" where
  "projectile_vs_life_spheres pr [] p = (pr, [], p)"
| "projectile_vs_life_spheres pr (s # ss) p =
     (if check_collision pr s
      then (destroy pr, collect s # ss, add_life p)
      else (case projectile_vs_life_spheres pr ss p of (pr', ss', p') \<Rightarrow> (pr', s # ss', p')))"

fun projectile_vs_meteorites :: "Projectile \<Rightarrow> Meteorite list \<Rightarrow> Projectile" where
  "projectile_vs_meteorites pr [] = pr"
| "projectile_vs_meteorites pr (m # ms) =
     (if check_collision pr m then destroy pr else projectile_vs_meteorites pr ms)"

text \<open>The body of the loop over \<open>self.projectiles[:]\<close>.\<close>

definition handle_projectile :: "Projectile \<Rightarrow> Game \<Rightarrow> Projectile \<times> Game" where
  "handle_projectile pr g =
     (if is_player_projectile pr
      then (case projectile_vs_enemies pr (enemies g) (score g) of
              (pr1, es, sc) \<Rightarrow>
                (case projectile_vs_life_spheres pr1 (life_spheres g) (player g) of
                   (pr2, ss, p) \<Rightarrow>
                     (projectile_vs_meteorites pr2 (meteorites g),
                      g\<lparr>enemies := es, score := sc, life_spheres := ss, player := p\<rparr>)))
      else if is_enemy_projectile pr
      then (let (pr1, p) = (if check_collision pr (player g)
                            then (destroy pr, Player_take_damage (player g))
                            else (pr, player g))
            in (projectile_vs_meteorites pr1 (meteorites g), g\<lparr>player := p\<rparr>))
      else (pr, g))"

fun handle_projectiles :: "Projectile list \<Rightarrow> Game \<Rightarrow> Projectile list \<times> Game" where
  "handle_projectiles [] g = ([], g)"
| "handle_projectiles (pr # prs) g =
     (case handle_projectile pr g of
        (pr', g1) \<Rightarrow> (case handle_projectiles prs g1 of (prs', g2) \<Rightarrow> (pr' # prs', g2)))"

definition handle_collisions :: "Game \<Rightarrow> error + Game" where
  "handle_collisions g =
     bind_err (player_vs_meteorites (meteorites g) g)
       (\<lambda>g1. case player_vs_life_spheres (life_spheres g1) (player g1) of
          (p2, ss) \<Rightarrow>
            (case player_vs_enemies (enemies g1) p2 of
               (p3, es) \<Rightarrow>
                 (case handle_projectiles (projectiles g1)
                         (g1\<lparr>player := p3, life_spheres := ss, enemies := es\<rparr>) of
                    (prs, g4) \<Rightarrow>
                      (let g5 = g4\<lparr>projectiles := prs\<rparr>
                       in Inr (if \<not> is_alive (player g5) then g5\<lparr>game_over := True\<rparr> else g5)))))"

definition cleanup_entities :: "Game \<Rightarrow> Game" where
  "cleanup_entities g =
     g\<lparr>enemies := filter is_alive (enemies g),
       life_spheres := filter is_alive (life_spheres g),
       projectiles := filter is_alive (projectiles g)\<rparr>"

subsection \<open>Game.update\<close>

definition update :: "Game \<Rightarrow> Env \<Rightarrow> real \<Rightarrow> error + Game" where
  "update g env dt =
     (if paused g \<or> game_over g then Inr g
      else
        (let g1 = update_ship_animation g env dt;
             g2 = g1\<lparr>player := Player_update (player g1) dt\<rparr>
         in bind_err (update_enemies (enemies g2) dt g2)
              (\<lambda>(es, g3).
                 (let g4 = g3\<lparr>enemies := es\<rparr>;
                      g5 = g4\<lparr>meteorites := map (\<lambda>m. Meteorite_update m dt) (meteorites g4)\<rparr>;
                      g6 = g5\<lparr>life_spheres := update_life_spheres (life_spheres g5) dt env\<rparr>;
                      g7 = g6\<lparr>projectiles := map (\<lambda>p. Projectile_update p dt) (projectiles g6)\<rparr>;
                      g8 = update_spawning g7 env dt
                  in bind_err (handle_collisions g8) (\<lambda>g9. Inr (cleanup_entities g9))))))"

subsection \<open>Game.\_\_init\_\_\<close>

text \<open>
  \<open>draw i\<close> holds the random draws for the i-th seeded meteorite: position, size,
  rotation speeds and drift velocity.
\<close>

definition spawn_initial_meteorites ::
  "Game \<Rightarrow> (nat \<Rightarrow> Vector3 \<times> real \<times> (real \<times> real \<times> real) \<times> Vector3) \<Rightarrow> Game" where
  "spawn_initial_meteorites g draw =
     g\<lparr>meteorites := meteorites g @
          map (\<lambda>i. case draw i of (pos, sz, rs, drift) \<Rightarrow> Meteorite_init (Some pos) sz rs drift)
            [0..<METEORITE_COUNT]\<rparr>"

definition Game_init ::
  "(nat \<Rightarrow> Vector3 \<times> real \<times> (real \<times> real \<times> real) \<times> Vector3) \<Rightarrow> error + Game" where
  "Game_init draw =
     bind_err (Camera_init (Some (Vector3 0 0 5)) (- 90.0) 0.0)
       (\<lambda>cam. Inr (spawn_initial_meteorites
          \<lparr>camera = cam, previous_camera_yaw = yaw cam, previous_camera_pitch = pitch cam,
           ship_roll = 0.0, ship_pitch_offset = 0.0,
           running = True, paused = False, game_over = False, score = 0,
           player = Player_init (Some (Vector3 0 0 0)),
           enemies = [], meteorites = [], life_spheres = [], projectiles = [],
           enemy_spawn_timer = 0.0, life_sphere_spawn_timer = 0.0, cockpit_sway = 0.0\<rparr>
          draw))"

subsection \<open>Inputs of the worked examples\<close>

text \<open>
  Names for the concrete inputs of the examples: random draws that seed the ten
  meteorites in a row at z = -30, drifting towards the player; an environment with no
  key pressed, wall-clock time \<open>t\<close> and fixed spawn draws; and the state the initial
  game is in after one tick of 700 seconds (proved below).
\<close>

abbreviation seed_draw :: "nat \<Rightarrow> Vector3 \<times> real \<times> (real \<times> real \<times> real) \<times> Vector3" where
  "seed_draw \<equiv> \<lambda>i. (Vector3 (of_nat i * 10) 0 (- 30), 4.5, (0, 0, 0), Vector3 0 0 0.04)"

abbreviation quiet_env :: "int \<Rightarrow> Env" where
  "quiet_env t \<equiv>
     \<lparr>ticks_at = (\<lambda>i. t), key_a = False, key_d = False,
      enemy_rand_x = 0, enemy_rand_y = 0, enemy_rand_timer = 1,
      sphere_rand_x = 0, sphere_rand_y = 0, sphere_rand_z = 40\<rparr>"

abbreviation state_after_long_tick :: Game where
  "state_after_long_tick \<equiv>
     \<lparr>camera = \<lparr>cam_position = Vector3 0 0 5, yaw = - 90, pitch = 0, front = Vector3 0 0 (- 1)\<rparr>,
      previous_camera_yaw = - 90, previous_camera_pitch = 0, ship_roll = 0, ship_pitch_offset = 0,
      running = True, paused = False, game_over = False, score = - 1,
      player = \<lparr>position = Vector3 0 0 5, velocity = Vector3 0 0 0, rotation = (0, 0, 0),
                 scale = (1, 1, 1), alive = True, radius = 2, lives = 3, shoot_cooldown = 0,
                 damage_flash_timer = 0, can_shoot = True\<rparr>,
      enemies = [\<lparr>position = Vector3 0 0 (- 95), velocity = Vector3 0 0 0, rotation = (0, 0, 0),
                   scale = (1, 1, 1), alive = True, radius = 3 / 2, health = 1, points = 1,
                   shoot_timer = 1, target_position = None\<rparr>],
      meteorites = map (\<lambda>i. \<lparr>position = Vector3 (of_nat i * 10) 0 (- 2), velocity = Vector3 0 0 (1 / 25),
                               rotation = (0, 0, 0), scale = (9 / 2, 9 / 2, 9 / 2), alive = True,
                               radius = 27 / 5, msize = 9 / 2, rotation_speed = (0, 0, 0)\<rparr>)
                     [0, 1, 2, 3, 4, 5, 6, 7, 8, 9],
      life_spheres = [\<lparr>position = Vector3 0 0 (- 35), velocity = Vector3 0 0 0, rotation = (0, 0, 0),
                        scale = (3 / 2, 3 / 2, 3 / 2), alive = True, radius = 3 / 2,
                        collected = False\<rparr>],
      projectiles = [], enemy_spawn_timer = 0, life_sphere_spawn_timer = 0, cockpit_sway = 0\<rparr>"

section \<open>Player lives\<close>

lemma Player_take_damage_lives:
  "lives (Player_take_damage p) = lives p - 1"
  by (simp add: Player_take_damage_def Let_def destroy_def)

section \<open>Vector facts\<close>

lemma bind_err_Inr [simp]: "bind_err (Inr v) f = f v"
  by (simp add: bind_err_def)

lemma bind_err_Inl [simp]: "bind_err (Inl e) f = Inl e"
  by (simp add: bind_err_def)

lemma Vector3_length_nonneg: "0 \<le> Vector3_length a"
  by (simp add: Vector3_length_def)

lemma Vector3_length_zero_iff: "Vector3_length a = 0 \<longleftrightarrow> a = Vector3 0 0 0"
  by (cases a) (simp add: Vector3_length_def sum_power2_eq_zero_iff add_nonneg_eq_0_iff)

lemma Vector3_length_pos_iff: "Vector3_length a > 0 \<longleftrightarrow> a \<noteq> Vector3 0 0 0"
  using Vector3_length_nonneg [of a] Vector3_length_zero_iff [of a] by linarith

lemma Vector3_normalize_Inr:
  "Vector3_normalize a =
     Inr (if a = Vector3 0 0 0 then Vector3 0 0 0
          else Vector3 (vx a / Vector3_length a) (vy a / Vector3_length a) (vz a / Vector3_length a))"
  using Vector3_length_pos_iff [of a]
  by (auto simp add: Vector3_normalize_def Vector3_truediv_def Let_def)



lemma sqrt_less_sq: "0 < r \<Longrightarrow> sqrt x < r \<longleftrightarrow> x < r\<^sup>2"
proof -
  assume r: "0 < r"
  have "sqrt x < sqrt (r\<^sup>2) \<longleftrightarrow> x < r\<^sup>2" by (rule real_sqrt_less_iff)
  then show ?thesis using r by simp
qed

lemma distance_less_sq:
  "0 < r \<Longrightarrow> Vector3_distance_to a b < r \<longleftrightarrow>
     (vx a - vx b)\<^sup>2 + (vy a - vy b)\<^sup>2 + (vz a - vz b)\<^sup>2 < r\<^sup>2"
  by (simp add: Vector3_distance_to_def Vector3_length_def Vector3_sub_def sqrt_less_sq)








section \<open>Collision test and push-back\<close>

lemma check_collision_euclid:
  "check_collision a b \<longleftrightarrow>
     sqrt ((vx (position a) - vx (position b))\<^sup>2 + (vy (position a) - vy (position b))\<^sup>2
           + (vz (position a) - vz (position b))\<^sup>2) < radius a + radius b"
  by (simp add: check_collision_def intersects_def get_radius_def Vector3_distance_to_def
        Vector3_length_def Vector3_sub_def Let_def)

lemma check_collision_sq:
  "0 < radius a + radius b \<Longrightarrow> check_collision a b \<longleftrightarrow>
     (vx (position a) - vx (position b))\<^sup>2 + (vy (position a) - vy (position b))\<^sup>2
       + (vz (position a) - vz (position b))\<^sup>2 < (radius a + radius b)\<^sup>2"
  by (simp add: check_collision_euclid sqrt_less_sq)

text \<open>
  C1.  \<open>check_collision a b\<close> is true exactly when the Euclidean distance between the
  two positions is strictly less than the sum of the two radii; at exact tangency
  (distance equal to the sum) it is false.
\<close>

theorem check_collision_iff_distance:
  "(check_collision a b \<longleftrightarrow>
      sqrt ((vx (position a) - vx (position b))\<^sup>2 + (vy (position a) - vy (position b))\<^sup>2
            + (vz (position a) - vz (position b))\<^sup>2) < radius a + radius b)
   \<and> (sqrt ((vx (position a) - vx (position b))\<^sup>2 + (vy (position a) - vy (position b))\<^sup>2
            + (vz (position a) - vz (position b))\<^sup>2) = radius a + radius b
        \<longrightarrow> \<not> check_collision a b)"
  by (simp add: check_collision_def intersects_def get_radius_def Vector3_distance_to_def
        Vector3_length_def Vector3_sub_def Let_def)

theorem check_collision_iff_distance_witness:
  "sqrt ((vx (position (Player_init (Some (Vector3 0 0 0))))
           - vx (position (Enemy_init (Some (Vector3 3.5 0 0)) 0)))\<^sup>2
         + (vy (position (Player_init (Some (Vector3 0 0 0))))
           - vy (position (Enemy_init (Some (Vector3 3.5 0 0)) 0)))\<^sup>2
         + (vz (position (Player_init (Some (Vector3 0 0 0))))
           - vz (position (Enemy_init (Some (Vector3 3.5 0 0)) 0)))\<^sup>2)
     = radius (Player_init (Some (Vector3 0 0 0))) + radius (Enemy_init (Some (Vector3 3.5 0 0)) 0)
   \<and> \<not> check_collision (Player_init (Some (Vector3 0 0 0))) (Enemy_init (Some (Vector3 3.5 0 0)) 0)
   \<and> check_collision (Player_init (Some (Vector3 0 0 0))) (Enemy_init (Some (Vector3 2 0 0)) 0)"
proof -
  have t: "sqrt ((vx (position (Player_init (Some (Vector3 0 0 0))))
           - vx (position (Enemy_init (Some (Vector3 3.5 0 0)) 0)))\<^sup>2
         + (vy (position (Player_init (Some (Vector3 0 0 0))))
           - vy (position (Enemy_init (Some (Vector3 3.5 0 0)) 0)))\<^sup>2
         + (vz (position (Player_init (Some (Vector3 0 0 0))))
           - vz (position (Enemy_init (Some (Vector3 3.5 0 0)) 0)))\<^sup>2)
     = radius (Player_init (Some (Vector3 0 0 0))) + radius (Enemy_init (Some (Vector3 3.5 0 0)) 0)"
    by (simp add: Player_init_def Enemy_init_def)
  have c: "check_collision (Player_init (Some (Vector3 0 0 0))) (Enemy_init (Some (Vector3 2 0 0)) 0)"
    using check_collision_iff_distance
            [of "Player_init (Some (Vector3 0 0 0))" "Enemy_init (Some (Vector3 2 0 0)) 0"]
    by (simp add: Player_init_def Enemy_init_def)
  show ?thesis
    using t c check_collision_iff_distance
            [of "Player_init (Some (Vector3 0 0 0))" "Enemy_init (Some (Vector3 3.5 0 0)) 0"]
    by blast
qed



section \<open>Player lives, continued\<close>

lemma Player_take_damage_alive:
  "alive (Player_take_damage p) \<longleftrightarrow> alive p \<and> 1 < lives p"
  by (auto simp add: Player_take_damage_def Let_def destroy_def)

lemma take_damage_iter:
  "k \<le> n \<Longrightarrow> 0 < n \<Longrightarrow> alive p \<Longrightarrow> lives p = int n \<Longrightarrow>
     lives ((Player_take_damage ^^ k) p) = int n - int k
     \<and> (alive ((Player_take_damage ^^ k) p) \<longleftrightarrow> k < n)"
proof (induction k)
  case 0
  then show ?case by simp
next
  case (Suc k)
  then have ih: "lives ((Player_take_damage ^^ k) p) = int n - int k"
    "alive ((Player_take_damage ^^ k) p)" by simp_all
  show ?case using ih Suc.prems(1)
    by (auto simp add: Player_take_damage_lives Player_take_damage_alive)
qed

text \<open>
  C5.  Starting from a live player with \<open>n > 0\<close> lives, \<open>k \<le> n\<close> calls of
  \<open>take_damage\<close> leave \<open>n - k\<close> lives, and the player is alive after them exactly when
  \<open>k < n\<close>: still alive before the n-th call, dead after it.
\<close>

theorem take_damage_lives_times:
  "alive p \<Longrightarrow> lives p = int n \<Longrightarrow> 0 < n \<Longrightarrow> k \<le> n \<Longrightarrow>
     lives ((Player_take_damage ^^ k) p) = int n - int k
     \<and> (is_alive ((Player_take_damage ^^ k) p) \<longleftrightarrow> k < n)"
  using take_damage_iter [of k n p] by (simp add: is_alive_def)

theorem take_damage_lives_times_witness:
  "alive (Player_init None) \<and> lives (Player_init None) = int 3 \<and> (0::nat) < 3
   \<and> is_alive ((Player_take_damage ^^ 2) (Player_init None))
   \<and> lives ((Player_take_damage ^^ 3) (Player_init None)) = 0
   \<and> \<not> is_alive ((Player_take_damage ^^ 3) (Player_init None))"
proof -
  have a: "alive (Player_init None)" and l: "lives (Player_init None) = int 3"
    by (simp_all add: Player_init_def PLAYER_STARTING_LIVES_def)
  show ?thesis
    using a l take_damage_lives_times [OF a l, of 2] take_damage_lives_times [OF a l, of 3]
    by simp
qed

section \<open>Enemy shooting\<close>

text \<open>
  C6.  \<open>Enemy.can_shoot\<close> returns false and changes nothing while \<open>shoot_timer > 0\<close>.
  It returns true exactly when the timer has expired (\<open>\<le> 0\<close>) and the target is nearer
  than \<open>ENEMY_SHOOT_RANGE\<close>, and then the enemy is the old one with \<open>shoot_timer\<close> set
  to \<open>ENEMY_SHOOT_INTERVAL\<close>; whenever it returns false the enemy is unchanged.
\<close>

theorem can_shoot_check_and_reset:
  "(shoot_timer e > 0 \<longrightarrow> Enemy_can_shoot e t = (e, False))
   \<and> (snd (Enemy_can_shoot e t) \<longleftrightarrow>
        shoot_timer e \<le> 0 \<and> Vector3_distance_to (position e) t < ENEMY_SHOOT_RANGE)
   \<and> (snd (Enemy_can_shoot e t) \<longrightarrow>
        fst (Enemy_can_shoot e t) = e\<lparr>shoot_timer := ENEMY_SHOOT_INTERVAL\<rparr>)
   \<and> (\<not> snd (Enemy_can_shoot e t) \<longrightarrow> fst (Enemy_can_shoot e t) = e)"
  by (simp add: Enemy_can_shoot_def Let_def)

theorem can_shoot_check_and_reset_witness:
  "shoot_timer (Enemy_init None 1) > 0
   \<and> Enemy_can_shoot (Enemy_init None 1) (Vector3 10 0 0) = (Enemy_init None 1, False)
   \<and> shoot_timer (Enemy_init None 0) \<le> 0
   \<and> snd (Enemy_can_shoot (Enemy_init None 0) (Vector3 10 0 0))
   \<and> fst (Enemy_can_shoot (Enemy_init None 0) (Vector3 10 0 0))
       = (Enemy_init None 0)\<lparr>shoot_timer := ENEMY_SHOOT_INTERVAL\<rparr>
   \<and> fst (Enemy_can_shoot (Enemy_init None 0) (Vector3 60 0 0)) = Enemy_init None 0"
proof -
  have t1: "shoot_timer (Enemy_init None 1) > 0" and t0: "shoot_timer (Enemy_init None 0) \<le> 0"
    by (simp_all add: Enemy_init_def)
  have near: "Vector3_distance_to (position (Enemy_init None 0)) (Vector3 10 0 0) < ENEMY_SHOOT_RANGE"
    by (simp add: distance_less_sq ENEMY_SHOOT_RANGE_def Enemy_init_def)
  have far: "\<not> Vector3_distance_to (position (Enemy_init None 0)) (Vector3 60 0 0) < ENEMY_SHOOT_RANGE"
    by (simp add: distance_less_sq ENEMY_SHOOT_RANGE_def Enemy_init_def)
  show ?thesis
    using t1 t0 near far
      can_shoot_check_and_reset [of "Enemy_init None 1" "Vector3 10 0 0"]
      can_shoot_check_and_reset [of "Enemy_init None 0" "Vector3 10 0 0"]
      can_shoot_check_and_reset [of "Enemy_init None 0" "Vector3 60 0 0"]
    by simp
qed

section \<open>Player shooting\<close>

lemma Player_shoot_result: "snd (Player_shoot p) = can_shoot p"
  by (simp add: Player_shoot_def)

lemma Player_shoot_blocked: "\<not> can_shoot p \<Longrightarrow> Player_shoot p = (p, False)"
  by (simp add: Player_shoot_def)

lemma Player_shoot_fired:
  "can_shoot p \<Longrightarrow> \<not> can_shoot (fst (Player_shoot p))
     \<and> shoot_cooldown (fst (Player_shoot p)) = PLAYER_SHOOT_COOLDOWN"
  by (simp add: Player_shoot_def)

lemma Player_update_cooling:
  "\<not> can_shoot p \<Longrightarrow> dt < shoot_cooldown p \<Longrightarrow> 0 \<le> dt \<Longrightarrow>
     \<not> can_shoot (Player_update p dt) \<and> shoot_cooldown (Player_update p dt) = shoot_cooldown p - dt"
  by (simp add: Player_update_def Entity_update_def Let_def)

lemma elapsed_nonneg: "dts_nonneg cs \<Longrightarrow> 0 \<le> elapsed cs"
  by (induction cs rule: elapsed.induct) auto

lemma run_calls_cooling:
  "\<not> can_shoot p \<Longrightarrow> dts_nonneg cs \<Longrightarrow> elapsed cs < shoot_cooldown p \<Longrightarrow>
     \<not> can_shoot (run_calls p cs)"
proof (induction p cs rule: run_calls.induct)
  case (1 p)
  then show ?case by simp
next
  case (2 p cs)
  then show ?case by (simp add: Player_shoot_blocked)
next
  case (3 p dt cs)
  from "3.prems" have nn: "0 \<le> dt" "dts_nonneg cs" by simp_all
  have "0 \<le> elapsed cs" using nn(2) by (rule elapsed_nonneg)
  with "3.prems" have lt: "dt < shoot_cooldown p" by simp
  have st: "\<not> can_shoot (Player_update p dt)"
    "shoot_cooldown (Player_update p dt) = shoot_cooldown p - dt"
    using Player_update_cooling [OF "3.prems"(1) lt nn(1)] by simp_all
  have "elapsed cs < shoot_cooldown (Player_update p dt)"
    using "3.prems"(3) st(2) by simp
  then show ?case using "3.IH" st(1) nn(2) by simp
qed

text \<open>
  C4.  \<open>shoot\<close> returns true exactly when \<open>can_shoot\<close> is true.  After a successful
  shot, over any sequence of \<open>shoot\<close> and \<open>update dt\<close> calls (each \<open>dt \<ge> 0\<close>, as elapsed
  time is) whose accumulated \<open>dt\<close> is below \<open>PLAYER_SHOOT_COOLDOWN\<close>, \<open>can_shoot\<close> is
  still false and a further \<open>shoot\<close> returns false.
\<close>

theorem shoot_cooldown_window:
  "(snd (Player_shoot p) \<longleftrightarrow> can_shoot p)
   \<and> (can_shoot p \<and> dts_nonneg cs \<and> elapsed cs < PLAYER_SHOOT_COOLDOWN \<longrightarrow>
        \<not> can_shoot (run_calls (fst (Player_shoot p)) cs)
        \<and> \<not> snd (Player_shoot (run_calls (fst (Player_shoot p)) cs)))"
proof -
  have "\<not> can_shoot (run_calls (fst (Player_shoot p)) cs)"
    if "can_shoot p" "dts_nonneg cs" "elapsed cs < PLAYER_SHOOT_COOLDOWN"
    using that Player_shoot_fired [of p] run_calls_cooling [of "fst (Player_shoot p)" cs]
    by simp
  then show ?thesis by (auto simp add: Player_shoot_result)
qed

theorem shoot_cooldown_window_witness:
  "can_shoot (Player_init None)
   \<and> dts_nonneg [Update 0.1, Shoot, Update 0.1]
   \<and> elapsed [Update 0.1, Shoot, Update 0.1] < PLAYER_SHOOT_COOLDOWN
   \<and> snd (Player_shoot (Player_init None))
   \<and> \<not> can_shoot (run_calls (fst (Player_shoot (Player_init None))) [Update 0.1, Shoot, Update 0.1])
   \<and> \<not> snd (Player_shoot (run_calls (fst (Player_shoot (Player_init None))) [Update 0.1, Shoot, Update 0.1]))"
proof -
  have c: "can_shoot (Player_init None)" by (simp add: Player_init_def)
  have d: "dts_nonneg [Update 0.1, Shoot, Update 0.1]" by simp
  have e: "elapsed [Update 0.1, Shoot, Update 0.1] < PLAYER_SHOOT_COOLDOWN"
    by (simp add: PLAYER_SHOOT_COOLDOWN_def)
  show ?thesis
    using c d e shoot_cooldown_window [of "Player_init None" "[Update 0.1, Shoot, Update 0.1]"]
    by blast
qed

section \<open>Yaw delta wrap-around\<close>

lemma wrap_above_le: "wrap_above d \<le> 180"
  by (induction d rule: wrap_above.induct) (subst wrap_above.simps, simp)

lemma wrap_above_id: "d \<le> 180 \<Longrightarrow> wrap_above d = d"
  by (subst wrap_above.simps) simp

lemma wrap_above_cong: "\<exists>k::int. wrap_above d = d + 360 * of_int k"
proof (induction d rule: wrap_above.induct)
  case (1 d)
  show ?case
  proof (cases "d > 180")
    case True
    with 1 obtain k :: int where "wrap_above (d - 360) = d - 360 + 360 * of_int k" by blast
    then have "wrap_above d = d + 360 * of_int (k - 1)"
      using True by (subst wrap_above.simps) simp
    then show ?thesis by blast
  next
    case False
    then have "wrap_above d = d + 360 * of_int (0::int)"
      by (subst wrap_above.simps) simp
    then show ?thesis by blast
  qed
qed

lemma wrap_below_ge: "- 180 \<le> wrap_below d"
  by (induction d rule: wrap_below.induct) (subst wrap_below.simps, simp)

lemma wrap_below_le: "d \<le> 180 \<Longrightarrow> wrap_below d \<le> 180"
  by (induction d rule: wrap_below.induct) (subst wrap_below.simps, simp)

lemma wrap_below_id: "- 180 \<le> d \<Longrightarrow> wrap_below d = d"
  by (subst wrap_below.simps) simp

lemma wrap_below_cong: "\<exists>k::int. wrap_below d = d + 360 * of_int k"
proof (induction d rule: wrap_below.induct)
  case (1 d)
  show ?case
  proof (cases "d < - 180")
    case True
    with 1 obtain k :: int where "wrap_below (d + 360) = d + 360 + 360 * of_int k" by blast
    then have "wrap_below d = d + 360 * of_int (k + 1)"
      using True by (subst wrap_below.simps) simp
    then show ?thesis by blast
  next
    case False
    then have "wrap_below d = d + 360 * of_int (0::int)"
      by (subst wrap_below.simps) simp
    then show ?thesis by blast
  qed
qed

text \<open>
  C9, as stated, fails at the boundary: with previous yaw 0 and new yaw -180 the raw
  delta -180 is left at -180, which is outside the half-open interval (-180, 180].
\<close>

theorem yaw_delta_boundary_counterexample:
  "\<not> (- 180 < normalize_yaw_delta (- 180 - 0) \<and> normalize_yaw_delta (- 180 - 0) \<le> 180)"
  by (simp add: normalize_yaw_delta_def wrap_above_id wrap_below_id)

text \<open>
  C9, amended.  The two loops wrap the raw yaw delta into the closed interval
  [-180, 180] by adding a whole multiple of 360; a delta already in that interval
  (-180 included) is left as it is, any other delta is changed.  Previous yaw 179
  and new yaw -179 give the wrapped delta +2.
\<close>

theorem yaw_delta_wrapped_closed:
  "- 180 \<le> normalize_yaw_delta d \<and> normalize_yaw_delta d \<le> 180
   \<and> (\<exists>k::int. normalize_yaw_delta d = d + 360 * of_int k)
   \<and> (if - 180 \<le> d \<and> d \<le> 180 then normalize_yaw_delta d = d else normalize_yaw_delta d \<noteq> d)
   \<and> normalize_yaw_delta (- 179 - 179) = 2"
proof -
  have b: "- 180 \<le> normalize_yaw_delta d \<and> normalize_yaw_delta d \<le> 180"
    by (simp add: normalize_yaw_delta_def wrap_below_ge wrap_below_le wrap_above_le)
  obtain k :: int where k: "wrap_above d = d + 360 * of_int k"
    using wrap_above_cong by blast
  obtain j :: int where j: "wrap_below (wrap_above d) = wrap_above d + 360 * of_int j"
    using wrap_below_cong by blast
  have "normalize_yaw_delta d = d + 360 * of_int (k + j)"
    using k j by (simp add: normalize_yaw_delta_def algebra_simps)
  then have c: "\<exists>k::int. normalize_yaw_delta d = d + 360 * of_int k" by blast
  have i: "if - 180 \<le> d \<and> d \<le> 180 then normalize_yaw_delta d = d else normalize_yaw_delta d \<noteq> d"
    using b by (auto simp add: normalize_yaw_delta_def wrap_above_id wrap_below_id)
  have "wrap_above (- 358) = - 358" by (simp add: wrap_above_id)
  moreover have "wrap_below (- 358) = 2"
    by (rule trans [OF wrap_below.simps]) (simp add: wrap_below_id)
  ultimately have e: "normalize_yaw_delta (- 179 - 179) = 2"
    by (simp add: normalize_yaw_delta_def)
  show ?thesis using b c i e by blast
qed

section \<open>The update loop never raises\<close>

lemmas entity_defs = Entity_update_def rotate_def destroy_def is_alive_def get_radius_def

lemma move_toward_target_Inr:
  "\<exists>v. move_toward_target e tp dt = Inr (e\<lparr>velocity := v\<rparr>)"
  by (auto simp add: move_toward_target_def Let_def Vector3_normalize_Inr)

lemma Enemy_update_Inr:
  "\<exists>e'. Enemy_update e dt (Some pp) = Inr e'
        \<and> position e' = Vector3_add (position e) (Vector3_mul (velocity e) dt)
        \<and> shoot_timer e' = shoot_timer e - dt
        \<and> alive e' = alive e \<and> radius e' = radius e
        \<and> health e' = health e \<and> points e' = points e"
proof -
  obtain v where "move_toward_target (Entity_update e dt) pp dt = Inr ((Entity_update e dt)\<lparr>velocity := v\<rparr>)"
    using move_toward_target_Inr by blast
  then show ?thesis
    by (simp add: Enemy_update_def entity_defs split: prod.splits)
qed

lemma Enemy_can_shoot_fst:
  "position (fst (Enemy_can_shoot e pp)) = position e
   \<and> alive (fst (Enemy_can_shoot e pp)) = alive e
   \<and> radius (fst (Enemy_can_shoot e pp)) = radius e
   \<and> health (fst (Enemy_can_shoot e pp)) = health e
   \<and> points (fst (Enemy_can_shoot e pp)) = points e"
  by (simp add: Enemy_can_shoot_def Let_def)

lemma Projectile_init_Inr:
  "\<exists>pr. Projectile_init pos dir owner = Inr pr \<and> position pr = pos \<and> age pr = 0
         \<and> owner_type pr = owner \<and> alive pr \<and> lifetime pr = LASER_LIFETIME"
  by (simp add: Projectile_init_def Vector3_normalize_Inr set_rotation_from_direction_def Let_def)

lemma shoot_enemy_laser_Inr:
  "\<exists>pr. shoot_enemy_laser g e = Inr (g\<lparr>projectiles := projectiles g @ [pr]\<rparr>)
         \<and> position pr = position e \<and> age pr = 0 \<and> owner_type pr = ''enemy''"
proof -
  obtain d where d: "get_shoot_direction e (position (player g)) = Inr d"
    by (simp add: get_shoot_direction_def Vector3_normalize_Inr)
  obtain pr where "Projectile_init (Vector3_copy (position e)) d ''enemy'' = Inr pr"
    "position pr = Vector3_copy (position e)" "age pr = 0" "owner_type pr = ''enemy''"
    using Projectile_init_Inr by blast
  then show ?thesis using d
    by (auto simp add: shoot_enemy_laser_def Vector3_copy_def)
qed

lemma update_enemies_Inr:
  "\<exists>es' new. update_enemies es dt g = Inr (es', g\<lparr>projectiles := projectiles g @ new\<rparr>)
      \<and> map position es' = map (\<lambda>e. Vector3_add (position e) (Vector3_mul (velocity e) dt)) es
      \<and> map alive es' = map alive es
      \<and> (\<forall>p \<in> set new. age p = 0 \<and> owner_type p = ''enemy'')"
proof (induction es arbitrary: g)
  case Nil
  have "update_enemies [] dt g = Inr ([], g\<lparr>projectiles := projectiles g @ []\<rparr>)" by simp
  then show ?case
    by (intro exI [of _ "[]"]) simp
next
  case (Cons e es)
  obtain e1 where e1: "Enemy_update e dt (Some (position (player g))) = Inr e1"
    "position e1 = Vector3_add (position e) (Vector3_mul (velocity e) dt)" "alive e1 = alive e"
    using Enemy_update_Inr by blast
  obtain e2 fired where cs: "Enemy_can_shoot e1 (position (player g)) = (e2, fired)"
    by (cases "Enemy_can_shoot e1 (position (player g))")
  have e2: "position e2 = position e1" "alive e2 = alive e1"
    using Enemy_can_shoot_fst [of e1 "position (player g)"] cs by simp_all
  obtain shot where g1: "(if fired then shoot_enemy_laser g e2 else Inr g)
       = Inr (g\<lparr>projectiles := projectiles g @ shot\<rparr>)"
    "\<forall>p \<in> set shot. age p = 0 \<and> owner_type p = ''enemy''"
  proof (cases fired)
    case True
    obtain pr where "shoot_enemy_laser g e2 = Inr (g\<lparr>projectiles := projectiles g @ [pr]\<rparr>)"
      "age pr = 0" "owner_type pr = ''enemy''"
      using shoot_enemy_laser_Inr by blast
    then show ?thesis using True that [of "[pr]"] by simp
  next
    case False
    then show ?thesis using that [of "[]"] by simp
  qed
  obtain es' new where ih:
    "update_enemies es dt (g\<lparr>projectiles := projectiles g @ shot\<rparr>)
       = Inr (es', g\<lparr>projectiles := projectiles g @ shot @ new\<rparr>)"
    "map position es' = map (\<lambda>e. Vector3_add (position e) (Vector3_mul (velocity e) dt)) es"
    "map alive es' = map alive es"
    "\<forall>p \<in> set new. age p = 0 \<and> owner_type p = ''enemy''"
  proof -
    from Cons.IH [of "g\<lparr>projectiles := projectiles g @ shot\<rparr>"]
    obtain es' new where
      "update_enemies es dt (g\<lparr>projectiles := projectiles g @ shot\<rparr>)
         = Inr (es', g\<lparr>projectiles := projectiles g @ shot\<rparr>
                  \<lparr>projectiles := projectiles (g\<lparr>projectiles := projectiles g @ shot\<rparr>) @ new\<rparr>)"
      "map position es' = map (\<lambda>e. Vector3_add (position e) (Vector3_mul (velocity e) dt)) es"
      "map alive es' = map alive es"
      "\<forall>p \<in> set new. age p = 0 \<and> owner_type p = ''enemy''"
      by blast
    then show ?thesis using that [of es' new] by simp
  qed
  have "update_enemies (e # es) dt g = Inr (e2 # es', g\<lparr>projectiles := projectiles g @ (shot @ new)\<rparr>)"
    using e1(1) cs g1(1) ih(1) by simp
  moreover have "\<forall>p \<in> set (shot @ new). age p = 0 \<and> owner_type p = ''enemy''"
    using g1(2) ih(4) by auto
  moreover have "map position (e2 # es') = map (\<lambda>e. Vector3_add (position e) (Vector3_mul (velocity e) dt)) (e # es)"
    using e1 e2 ih(2) by simp
  moreover have "map alive (e2 # es') = map alive (e # es)"
    using e1 e2 ih(3) by simp
  ultimately show ?case by blast
qed

section \<open>The collision loops\<close>

lemma resolve_collision_Inr:
  "\<exists>y. resolve_collision a b d = Inr (a\<lparr>position := y\<rparr>, b)"
  by (auto simp add: resolve_collision_def Let_def Vector3_normalize_Inr)

lemma player_vs_meteorites_Inr:
  "\<exists>sc x c. player_vs_meteorites ms g =
      Inr (g\<lparr>camera := (camera g)\<lparr>cam_position := c\<rparr>, score := sc,
             player := (player g)\<lparr>position := x\<rparr>\<rparr>)"
proof (induction ms arbitrary: g)
  case Nil
  have "player_vs_meteorites [] g =
      Inr (g\<lparr>camera := (camera g)\<lparr>cam_position := cam_position (camera g)\<rparr>, score := score g,
             player := (player g)\<lparr>position := position (player g)\<rparr>\<rparr>)"
    by simp
  then show ?case by blast
next
  case (Cons m ms)
  show ?case
  proof (cases "check_collision (player g) m")
    case True
    obtain y where y: "resolve_collision (player g) m COLLISION_PUSH_BACK = Inr ((player g)\<lparr>position := y\<rparr>, m)"
      using resolve_collision_Inr by blast
    let ?g1 = "g\<lparr>score := score g + METEORITE_COLLISION_PENALTY, player := (player g)\<lparr>position := y\<rparr>,
                 camera := (camera g)\<lparr>cam_position := Vector3_copy (position ((player g)\<lparr>position := y\<rparr>))\<rparr>\<rparr>"
    from Cons.IH [of ?g1] obtain sc x c where
      "player_vs_meteorites ms ?g1 =
         Inr (?g1\<lparr>camera := (camera ?g1)\<lparr>cam_position := c\<rparr>, score := sc,
                player := (player ?g1)\<lparr>position := x\<rparr>\<rparr>)"
      by blast
    then have "player_vs_meteorites (m # ms) g =
         Inr (g\<lparr>camera := (camera g)\<lparr>cam_position := c\<rparr>, score := sc,
                player := (player g)\<lparr>position := x\<rparr>\<rparr>)"
      using True y by simp
    then show ?thesis by blast
  next
    case False
    then show ?thesis using Cons.IH [of g] by simp
  qed
qed

lemma player_vs_life_spheres_shape:
  "player_vs_life_spheres ss p = (p', ss') \<Longrightarrow>
     (\<exists>n. p' = p\<lparr>lives := n\<rparr>) \<and> map position ss' = map position ss"
proof (induction ss arbitrary: p p' ss')
  case Nil
  then have "p' = p\<lparr>lives := lives p\<rparr>" "ss' = []" by simp_all
  then show ?case by blast
next
  case (Cons s ss)
  show ?case
  proof (cases "check_collision p s")
    case True
    obtain q qs where r: "player_vs_life_spheres ss (add_life p) = (q, qs)"
      by (cases "player_vs_life_spheres ss (add_life p)")
    from Cons.IH [OF r] obtain n where "q = (add_life p)\<lparr>lives := n\<rparr>" "map position qs = map position ss"
      by blast
    moreover have "p' = q" "ss' = collect s # qs" using Cons.prems True r by simp_all
    ultimately have "p' = p\<lparr>lives := n\<rparr>" "map position ss' = map position (s # ss)"
      by (simp_all add: add_life_def collect_def destroy_def)
    then show ?thesis by blast
  next
    case False
    obtain q qs where r: "player_vs_life_spheres ss p = (q, qs)"
      by (cases "player_vs_life_spheres ss p")
    from Cons.IH [OF r] obtain n where "q = p\<lparr>lives := n\<rparr>" "map position qs = map position ss"
      by blast
    moreover have "p' = q" "ss' = s # qs" using Cons.prems False r by simp_all
    ultimately show ?thesis by auto
  qed
qed

lemma Player_take_damage_shape:
  "\<exists>a n t. Player_take_damage p = p\<lparr>alive := a, lives := n, damage_flash_timer := t\<rparr>"
proof (cases "lives p - 1 \<le> 0")
  case True
  then have "Player_take_damage p = p\<lparr>alive := False, lives := lives p - 1, damage_flash_timer := 0.5\<rparr>"
    by (simp add: Player_take_damage_def destroy_def Let_def)
  then show ?thesis by blast
next
  case False
  then have "Player_take_damage p = p\<lparr>alive := alive p, lives := lives p - 1, damage_flash_timer := 0.5\<rparr>"
    by (simp add: Player_take_damage_def destroy_def Let_def)
  then show ?thesis by blast
qed

lemma player_vs_enemies_shape:
  "player_vs_enemies es p = (p', es') \<Longrightarrow>
     (\<exists>a n t. p' = p\<lparr>alive := a, lives := n, damage_flash_timer := t\<rparr>)
     \<and> map position es' = map position es"
proof (induction es arbitrary: p p' es')
  case Nil
  then have "p' = p\<lparr>alive := alive p, lives := lives p, damage_flash_timer := damage_flash_timer p\<rparr>"
    "es' = []" by simp_all
  then show ?case by blast
next
  case (Cons e es)
  show ?case
  proof (cases "check_collision p e")
    case True
    obtain q qs where r: "player_vs_enemies es (Player_take_damage p) = (q, qs)"
      by (cases "player_vs_enemies es (Player_take_damage p)")
    obtain a0 n0 t0 where d: "Player_take_damage p = p\<lparr>alive := a0, lives := n0, damage_flash_timer := t0\<rparr>"
      using Player_take_damage_shape by blast
    from Cons.IH [OF r] obtain a n t where
      "q = (Player_take_damage p)\<lparr>alive := a, lives := n, damage_flash_timer := t\<rparr>"
      "map position qs = map position es"
      by blast
    moreover have "p' = q" "es' = destroy e # qs" using Cons.prems True r by simp_all
    ultimately have "p' = p\<lparr>alive := a, lives := n, damage_flash_timer := t\<rparr>"
      "map position es' = map position (e # es)"
      using d by (simp_all add: destroy_def)
    then show ?thesis by blast
  next
    case False
    obtain q qs where r: "player_vs_enemies es p = (q, qs)"
      by (cases "player_vs_enemies es p")
    from Cons.IH [OF r] obtain a n t where
      "q = p\<lparr>alive := a, lives := n, damage_flash_timer := t\<rparr>" "map position qs = map position es"
      by blast
    moreover have "p' = q" "es' = e # qs" using Cons.prems False r by simp_all
    ultimately show ?thesis by auto
  qed
qed

lemma projectile_vs_enemies_first:
  "projectile_vs_enemies pr es sc = (pr', es', sc') \<Longrightarrow>
     ((\<forall>e \<in> set es. \<not> check_collision pr e) \<and> pr' = pr \<and> es' = es \<and> sc' = sc)
     \<or> (\<exists>i<length es. check_collision pr (es ! i) \<and> (\<forall>k<i. \<not> check_collision pr (es ! k))
            \<and> pr' = destroy pr \<and> es' = es[i := Enemy_take_damage (es ! i) 1]
            \<and> sc' = (if is_alive (Enemy_take_damage (es ! i) 1) then sc else sc + points (es ! i)))"
proof (induction es arbitrary: pr' es' sc')
  case Nil
  then show ?case by simp
next
  case (Cons e es)
  show ?case
  proof (cases "check_collision pr e")
    case True
    have pts: "points (Enemy_take_damage e 1) = points e"
      by (simp add: Enemy_take_damage_def destroy_def Let_def)
    from Cons.prems True
    have "pr' = destroy pr" "es' = (e # es)[0 := Enemy_take_damage ((e # es) ! 0) 1]"
      "sc' = (if is_alive (Enemy_take_damage ((e # es) ! 0) 1) then sc else sc + points ((e # es) ! 0))"
      by (auto simp add: Let_def get_points_def pts split: if_splits)
    moreover have "check_collision pr ((e # es) ! 0)" using True by simp
    moreover have "\<forall>k<0::nat. \<not> check_collision pr ((e # es) ! k)" by simp
    ultimately show ?thesis by (intro disjI2 exI [of _ 0]) simp
  next
    case False
    obtain q qs s where r: "projectile_vs_enemies pr es sc = (q, qs, s)"
      by (cases "projectile_vs_enemies pr es sc")
    have res: "pr' = q" "es' = e # qs" "sc' = s" using Cons.prems False r by simp_all
    from Cons.IH [OF r] show ?thesis
    proof
      assume "(\<forall>e \<in> set es. \<not> check_collision pr e) \<and> q = pr \<and> qs = es \<and> s = sc"
      then show ?thesis using res False by simp
    next
      assume "\<exists>i<length es. check_collision pr (es ! i) \<and> (\<forall>k<i. \<not> check_collision pr (es ! k))
            \<and> q = destroy pr \<and> qs = es[i := Enemy_take_damage (es ! i) 1]
            \<and> s = (if is_alive (Enemy_take_damage (es ! i) 1) then sc else sc + points (es ! i))"
      then obtain i where i: "i < length es" "check_collision pr (es ! i)"
        "\<forall>k<i. \<not> check_collision pr (es ! k)" "q = destroy pr"
        "qs = es[i := Enemy_take_damage (es ! i) 1]"
        "s = (if is_alive (Enemy_take_damage (es ! i) 1) then sc else sc + points (es ! i))"
        by blast
      have first: "\<forall>k<Suc i. \<not> check_collision pr ((e # es) ! k)"
      proof (intro allI impI)
        fix k assume "k < Suc i"
        then show "\<not> check_collision pr ((e # es) ! k)"
          using False i(3) by (cases k) simp_all
      qed
      have "Suc i < length (e # es)" "check_collision pr ((e # es) ! Suc i)"
        "pr' = destroy pr" "es' = (e # es)[Suc i := Enemy_take_damage ((e # es) ! Suc i) 1]"
        "sc' = (if is_alive (Enemy_take_damage ((e # es) ! Suc i) 1) then sc
                else sc + points ((e # es) ! Suc i))"
        using i res by simp_all
      then show ?thesis using first by blast
    qed
  qed
qed

lemma projectile_vs_life_spheres_first:
  "projectile_vs_life_spheres pr ss p = (pr', ss', p') \<Longrightarrow>
     ((\<forall>s \<in> set ss. \<not> check_collision pr s) \<and> pr' = pr \<and> ss' = ss \<and> p' = p)
     \<or> (\<exists>j<length ss. check_collision pr (ss ! j) \<and> (\<forall>k<j. \<not> check_collision pr (ss ! k))
            \<and> pr' = destroy pr \<and> ss' = ss[j := collect (ss ! j)] \<and> p' = add_life p)"
proof (induction ss arbitrary: pr' ss' p')
  case Nil
  then show ?case by simp
next
  case (Cons s ss)
  show ?case
  proof (cases "check_collision pr s")
    case True
    from Cons.prems True
    have "pr' = destroy pr" "ss' = (s # ss)[0 := collect ((s # ss) ! 0)]" "p' = add_life p"
      by simp_all
    moreover have "check_collision pr ((s # ss) ! 0)" using True by simp
    moreover have "\<forall>k<0::nat. \<not> check_collision pr ((s # ss) ! k)" by simp
    ultimately show ?thesis by (intro disjI2 exI [of _ 0]) simp
  next
    case False
    obtain q qs r where r: "projectile_vs_life_spheres pr ss p = (q, qs, r)"
      by (cases "projectile_vs_life_spheres pr ss p")
    have res: "pr' = q" "ss' = s # qs" "p' = r" using Cons.prems False r by simp_all
    from Cons.IH [OF r] show ?thesis
    proof
      assume "(\<forall>s \<in> set ss. \<not> check_collision pr s) \<and> q = pr \<and> qs = ss \<and> r = p"
      then show ?thesis using res False by simp
    next
      assume "\<exists>j<length ss. check_collision pr (ss ! j) \<and> (\<forall>k<j. \<not> check_collision pr (ss ! k))
            \<and> q = destroy pr \<and> qs = ss[j := collect (ss ! j)] \<and> r = add_life p"
      then obtain j where j: "j < length ss" "check_collision pr (ss ! j)"
        "\<forall>k<j. \<not> check_collision pr (ss ! k)" "q = destroy pr"
        "qs = ss[j := collect (ss ! j)]" "r = add_life p"
        by blast
      have first: "\<forall>k<Suc j. \<not> check_collision pr ((s # ss) ! k)"
      proof (intro allI impI)
        fix k assume "k < Suc j"
        then show "\<not> check_collision pr ((s # ss) ! k)"
          using False j(3) by (cases k) simp_all
      qed
      have "Suc j < length (s # ss)" "check_collision pr ((s # ss) ! Suc j)"
        "pr' = destroy pr" "ss' = (s # ss)[Suc j := collect ((s # ss) ! Suc j)]" "p' = add_life p"
        using j res by simp_all
      then show ?thesis using first by blast
    qed
  qed
qed

lemma projectile_vs_meteorites_first:
  "projectile_vs_meteorites pr ms =
     (if \<exists>m \<in> set ms. check_collision pr m then destroy pr else pr)"
  by (induction ms) simp_all

lemma destroy_idem: "destroy (destroy e) = destroy e"
  by (simp add: destroy_def)

lemma check_collision_destroy [simp]: "check_collision (destroy a) b = check_collision a b"
  by (simp add: check_collision_def destroy_def get_radius_def)

section \<open>Evaluation on concrete states\<close>

lemma Camera_init_start:
  "Camera_init (Some (Vector3 0 0 5)) (- 90.0) 0.0 =
     Inr \<lparr>cam_position = Vector3 0 0 5, yaw = - 90, pitch = 0, front = Vector3 0 0 (- 1)\<rparr>"
proof -
  have "radians (- 90) = - (pi / 2)" by (simp add: radians_def)
  then show ?thesis
    by (simp add: Camera_init_def update_vectors_def Let_def radians_def
          Vector3_normalize_Inr Vector3_length_def)
qed

lemma upt_10: "[0..<10] = [0, 1, 2, 3, 4, 5, 6, 7, 8, 9]"
  by code_simp

lemma Game_init_Inr:
  "Game_init draw =
     Inr \<lparr>camera = \<lparr>cam_position = Vector3 0 0 5, yaw = - 90, pitch = 0, front = Vector3 0 0 (- 1)\<rparr>,
          previous_camera_yaw = - 90, previous_camera_pitch = 0,
          ship_roll = 0, ship_pitch_offset = 0,
          running = True, paused = False, game_over = False, score = 0,
          player = Player_init (Some (Vector3 0 0 0)),
          enemies = [],
          meteorites = map (\<lambda>i. case draw i of (pos, sz, rs, drift) \<Rightarrow> Meteorite_init (Some pos) sz rs drift)
                         [0, 1, 2, 3, 4, 5, 6, 7, 8, 9],
          life_spheres = [], projectiles = [],
          enemy_spawn_timer = 0, life_sphere_spawn_timer = 0, cockpit_sway = 0\<rparr>"
  using Camera_init_start
  by (simp add: Game_init_def spawn_initial_meteorites_def METEORITE_COUNT_def upt_10)

lemmas vec_simps = Vector3_add_def Vector3_sub_def Vector3_mul_def Vector3_copy_def
lemmas ent_simps = Entity_update_def rotate_def destroy_def is_alive_def get_radius_def

lemma p0: "Projectile_init (Vector3 0 0 3) (Vector3 0 0 (- 1)) ''player'' =
   Inr \<lparr>position = Vector3 0 0 3, velocity = Vector3 0 0 (- 80), rotation = (0, pi, 0),
            scale = (1, 1, 1), alive = True, radius = 0.3,
            owner_type = ''player'', direction = Vector3 0 0 (- 1), lifetime = 5, age = 0\<rparr>"
  by (simp add: Projectile_init_def Vector3_normalize_Inr Vector3_length_def
      set_rotation_from_direction_def atan2_def vec_simps LASER_SPEED_def LASER_LIFETIME_def)

lemma p1: "Projectile_update \<lparr>position = Vector3 0 0 3, velocity = Vector3 0 0 (- 80), rotation = (0, pi, 0),
            scale = (1, 1, 1), alive = True, radius = 0.3,
            owner_type = ''player'', direction = Vector3 0 0 (- 1), lifetime = 5, age = 0\<rparr> (43 / 80)
  = \<lparr>position = Vector3 0 0 (- 40), velocity = Vector3 0 0 (- 80), rotation = (0, pi, 0),
            scale = (1, 1, 1), alive = True, radius = 0.3,
            owner_type = ''player'', direction = Vector3 0 0 (- 1), lifetime = 5, age = 43 / 80\<rparr>"
  by (simp add: Projectile_update_def ent_simps vec_simps Let_def)

lemma check_collision_eval:
  "0 < radius a + radius b \<Longrightarrow> check_collision a b \<longleftrightarrow>
     (vx (position a) - vx (position b)) * (vx (position a) - vx (position b))
     + (vy (position a) - vy (position b)) * (vy (position a) - vy (position b))
     + (vz (position a) - vz (position b)) * (vz (position a) - vz (position b))
     < (radius a + radius b) * (radius a + radius b)"
  by (simp add: check_collision_sq power2_eq_square)

lemmas eval_simps =
  Game_init_Inr Player_init_def Enemy_init_def LifeSphere_init_def Meteorite_init_def
  p0 p1
  Vector3_normalize_Inr Vector3_length_pos_iff vec_simps
  handle_collisions_def handle_projectile_def is_player_projectile_def is_enemy_projectile_def
  check_collision_eval Enemy_take_damage_def Player_take_damage_def add_life_def collect_def
  get_points_def resolve_collision_def
  ent_simps Let_def
  PLAYER_STARTING_LIVES_def ENEMY_HEALTH_def ENEMY_POINTS_def LIFE_SPHERE_SIZE_def
  COLLISION_PUSH_BACK_def METEORITE_COLLISION_PENALTY_def

section \<open>Player projectiles in the collision phase\<close>

text \<open>
  C2, as stated, fails.  In the state below (the initial game with one enemy at
  z = -41, one life sphere at z = -39 and one player projectile that has flown from
  z = 3 to z = -40) the collision phase lets the one projectile kill the enemy (health
  0, score + 1) and collect the life sphere (collected, lives + 1).
\<close>

theorem projectile_hits_enemy_and_sphere_counterexample:
  "bind_err (Game_init (\<lambda>i. (Vector3 (of_nat i * 10) 0 (- 30), 4.5, (0, 0, 0), Vector3 0 0 0.04)))
     (\<lambda>g0. bind_err (Projectile_init (Vector3 0 0 3) (Vector3 0 0 (- 1)) ''player'')
        (\<lambda>p0. bind_err
           (handle_collisions
              (g0\<lparr>enemies := [Enemy_init (Some (Vector3 0 0 (- 41))) 1],
                   life_spheres := [LifeSphere_init (Some (Vector3 0 0 (- 39)))],
                   projectiles := [Projectile_update p0 (43 / 80)]\<rparr>))
           (\<lambda>g1. Inr (map health (enemies g1), score g1 - score g0,
                        map collected (life_spheres g1), lives (player g1) - lives (player g0),
                        map alive (projectiles g1)))))
   = Inr ([0], 1, [True], 1, [False])"
  by (simp add: eval_simps)

text \<open>
  C2, amended.  For a player-owned projectile, the body of the projectile loop does
  this.  Among the enemies, the first one in list order that the projectile overlaps
  (if any) is replaced by itself after \<open>take_damage\<close>, and the score grows by that
  enemy's points exactly when the enemy is dead after the hit; no other enemy
  changes, and with no overlap neither the list nor the score changes.  Among the
  life spheres, the first one in list order that the projectile overlaps (if any) is
  replaced by itself after \<open>collect\<close> and the player gains one life; no other sphere
  changes, and with no overlap neither the list nor the player changes.  The sphere
  test does not depend on what the enemy test did.  No meteorite changes.  The
  projectile is destroyed exactly when it overlaps some enemy, life sphere or
  meteorite.
\<close>

theorem player_projectile_first_of_each_kind:
  "is_player_projectile pr \<longrightarrow>
     (case handle_projectile pr g of
        (pr', g') \<Rightarrow>
          (((\<forall>e \<in> set (enemies g). \<not> check_collision pr e)
              \<and> enemies g' = enemies g \<and> score g' = score g)
           \<or> (\<exists>i<length (enemies g).
                 check_collision pr (enemies g ! i)
                 \<and> (\<forall>k<i. \<not> check_collision pr (enemies g ! k))
                 \<and> enemies g' = (enemies g)[i := Enemy_take_damage (enemies g ! i) 1]
                 \<and> score g' = (if is_alive (Enemy_take_damage (enemies g ! i) 1) then score g
                                else score g + points (enemies g ! i))))
          \<and> (((\<forall>s \<in> set (life_spheres g). \<not> check_collision pr s)
                 \<and> life_spheres g' = life_spheres g \<and> player g' = player g)
               \<or> (\<exists>j<length (life_spheres g).
                     check_collision pr (life_spheres g ! j)
                     \<and> (\<forall>k<j. \<not> check_collision pr (life_spheres g ! k))
                     \<and> life_spheres g' = (life_spheres g)[j := collect (life_spheres g ! j)]
                     \<and> player g' = add_life (player g)))
          \<and> meteorites g' = meteorites g
          \<and> projectiles g' = projectiles g
          \<and> pr' = (if (\<exists>e \<in> set (enemies g). check_collision pr e)
                        \<or> (\<exists>s \<in> set (life_spheres g). check_collision pr s)
                        \<or> (\<exists>m \<in> set (meteorites g). check_collision pr m)
                     then destroy pr else pr))"
proof
  assume pl: "is_player_projectile pr"
  obtain pr1 es sc where a: "projectile_vs_enemies pr (enemies g) (score g) = (pr1, es, sc)"
    by (cases "projectile_vs_enemies pr (enemies g) (score g)")
  obtain pr2 ss p where b: "projectile_vs_life_spheres pr1 (life_spheres g) (player g) = (pr2, ss, p)"
    by (cases "projectile_vs_life_spheres pr1 (life_spheres g) (player g)")
  have hp: "handle_projectile pr g =
      (projectile_vs_meteorites pr2 (meteorites g),
       g\<lparr>enemies := es, score := sc, life_spheres := ss, player := p\<rparr>)"
    using pl a b by (simp add: handle_projectile_def)
  note ea = projectile_vs_enemies_first [OF a]
  note sb = projectile_vs_life_spheres_first [OF b]
  have p1: "pr1 = (if \<exists>e \<in> set (enemies g). check_collision pr e then destroy pr else pr)"
  proof (cases "\<exists>e \<in> set (enemies g). check_collision pr e")
    case True
    then show ?thesis using ea by auto
  next
    case False
    have "\<not> (\<exists>i<length (enemies g). check_collision pr (enemies g ! i))"
      using False nth_mem by blast
    then show ?thesis using False ea by auto
  qed
  have c1: "\<And>x. check_collision pr1 x = check_collision pr x"
    by (simp add: p1)
  have e: "((\<forall>e \<in> set (enemies g). \<not> check_collision pr e) \<and> es = enemies g \<and> sc = score g)
           \<or> (\<exists>i<length (enemies g).
                 check_collision pr (enemies g ! i)
                 \<and> (\<forall>k<i. \<not> check_collision pr (enemies g ! k))
                 \<and> es = (enemies g)[i := Enemy_take_damage (enemies g ! i) 1]
                 \<and> sc = (if is_alive (Enemy_take_damage (enemies g ! i) 1) then score g
                          else score g + points (enemies g ! i)))"
    using ea by blast
  have s: "((\<forall>s \<in> set (life_spheres g). \<not> check_collision pr s)
                 \<and> ss = life_spheres g \<and> p = player g)
               \<or> (\<exists>j<length (life_spheres g).
                     check_collision pr (life_spheres g ! j)
                     \<and> (\<forall>k<j. \<not> check_collision pr (life_spheres g ! k))
                     \<and> ss = (life_spheres g)[j := collect (life_spheres g ! j)]
                     \<and> p = add_life (player g))"
    using sb unfolding c1 by blast
  have p2: "pr2 = (if \<exists>s \<in> set (life_spheres g). check_collision pr s then destroy pr1 else pr1)"
  proof (cases "\<exists>s \<in> set (life_spheres g). check_collision pr s")
    case True
    then show ?thesis using sb unfolding c1 by auto
  next
    case False
    have "\<not> (\<exists>j<length (life_spheres g). check_collision pr (life_spheres g ! j))"
      using False nth_mem by blast
    then show ?thesis using False sb unfolding c1 by auto
  qed
  have c2: "\<And>x. check_collision pr2 x = check_collision pr x"
    by (simp add: p2 c1)
  have d: "projectile_vs_meteorites pr2 (meteorites g)
      = (if (\<exists>e \<in> set (enemies g). check_collision pr e)
            \<or> (\<exists>s \<in> set (life_spheres g). check_collision pr s)
            \<or> (\<exists>m \<in> set (meteorites g). check_collision pr m)
         then destroy pr else pr)"
    unfolding projectile_vs_meteorites_first c2
    by (simp add: p2 p1 destroy_idem)
  show "case handle_projectile pr g of
        (pr', g') \<Rightarrow>
          (((\<forall>e \<in> set (enemies g). \<not> check_collision pr e)
              \<and> enemies g' = enemies g \<and> score g' = score g)
           \<or> (\<exists>i<length (enemies g).
                 check_collision pr (enemies g ! i)
                 \<and> (\<forall>k<i. \<not> check_collision pr (enemies g ! k))
                 \<and> enemies g' = (enemies g)[i := Enemy_take_damage (enemies g ! i) 1]
                 \<and> score g' = (if is_alive (Enemy_take_damage (enemies g ! i) 1) then score g
                                else score g + points (enemies g ! i))))
          \<and> (((\<forall>s \<in> set (life_spheres g). \<not> check_collision pr s)
                 \<and> life_spheres g' = life_spheres g \<and> player g' = player g)
               \<or> (\<exists>j<length (life_spheres g).
                     check_collision pr (life_spheres g ! j)
                     \<and> (\<forall>k<j. \<not> check_collision pr (life_spheres g ! k))
                     \<and> life_spheres g' = (life_spheres g)[j := collect (life_spheres g ! j)]
                     \<and> player g' = add_life (player g)))
          \<and> meteorites g' = meteorites g
          \<and> projectiles g' = projectiles g
          \<and> pr' = (if (\<exists>e \<in> set (enemies g). check_collision pr e)
                        \<or> (\<exists>s \<in> set (life_spheres g). check_collision pr s)
                        \<or> (\<exists>m \<in> set (meteorites g). check_collision pr m)
                     then destroy pr else pr)"
    unfolding hp using e s d by simp
qed

theorem player_projectile_first_of_each_kind_witness:
  "(let pr = \<lparr>position = Vector3 0 0 (- 40), velocity = Vector3 0 0 (- 80), rotation = (0, pi, 0),
              scale = (1, 1, 1), alive = True, radius = 0.3,
              owner_type = ''player'', direction = Vector3 0 0 (- 1), lifetime = 5, age = 43 / 80\<rparr>;
        g = \<lparr>camera = \<lparr>cam_position = Vector3 0 0 5, yaw = - 90, pitch = 0, front = Vector3 0 0 (- 1)\<rparr>,
             previous_camera_yaw = - 90, previous_camera_pitch = 0,
             ship_roll = 0, ship_pitch_offset = 0,
             running = True, paused = False, game_over = False, score = 0,
             player = Player_init (Some (Vector3 0 0 0)),
             enemies = [Enemy_init (Some (Vector3 0 0 (- 41))) 1, Enemy_init (Some (Vector3 0 1 (- 41))) 1],
             meteorites = [Meteorite_init (Some (Vector3 0 0 (- 30))) 4.5 (0, 0, 0) (Vector3 0 0 0.04)],
             life_spheres = [LifeSphere_init (Some (Vector3 0 0 (- 39)))],
             projectiles = [pr],
             enemy_spawn_timer = 0, life_sphere_spawn_timer = 0, cockpit_sway = 0\<rparr>
    in is_player_projectile pr
       \<and> enemies (snd (handle_projectile pr g)) = (enemies g)[0 := Enemy_take_damage (enemies g ! 0) 1]
       \<and> score (snd (handle_projectile pr g)) = score g + points (enemies g ! 0)
       \<and> life_spheres (snd (handle_projectile pr g)) = (life_spheres g)[0 := collect (life_spheres g ! 0)]
       \<and> player (snd (handle_projectile pr g)) = add_life (player g)
       \<and> meteorites (snd (handle_projectile pr g)) = meteorites g
       \<and> fst (handle_projectile pr g) = destroy pr)"
  using player_projectile_first_of_each_kind
    [of "\<lparr>position = Vector3 0 0 (- 40), velocity = Vector3 0 0 (- 80), rotation = (0, pi, 0),
              scale = (1, 1, 1), alive = True, radius = 0.3,
              owner_type = ''player'', direction = Vector3 0 0 (- 1), lifetime = 5, age = 43 / 80\<rparr>"
        "\<lparr>camera = \<lparr>cam_position = Vector3 0 0 5, yaw = - 90, pitch = 0, front = Vector3 0 0 (- 1)\<rparr>,
             previous_camera_yaw = - 90, previous_camera_pitch = 0,
             ship_roll = 0, ship_pitch_offset = 0,
             running = True, paused = False, game_over = False, score = 0,
             player = Player_init (Some (Vector3 0 0 0)),
             enemies = [Enemy_init (Some (Vector3 0 0 (- 41))) 1, Enemy_init (Some (Vector3 0 1 (- 41))) 1],
             meteorites = [Meteorite_init (Some (Vector3 0 0 (- 30))) 4.5 (0, 0, 0) (Vector3 0 0 0.04)],
             life_spheres = [LifeSphere_init (Some (Vector3 0 0 (- 39)))],
             projectiles = [\<lparr>position = Vector3 0 0 (- 40), velocity = Vector3 0 0 (- 80), rotation = (0, pi, 0),
              scale = (1, 1, 1), alive = True, radius = 0.3,
              owner_type = ''player'', direction = Vector3 0 0 (- 1), lifetime = 5, age = 43 / 80\<rparr>],
             enemy_spawn_timer = 0, life_sphere_spawn_timer = 0, cockpit_sway = 0\<rparr>"]
  by (simp add: eval_simps)

section \<open>What the collision phase leaves alone\<close>

lemma Enemy_take_damage_frame:
  "position (Enemy_take_damage e d) = position e"
  by (simp add: Enemy_take_damage_def destroy_def Let_def)

lemma projectile_vs_enemies_frame:
  "projectile_vs_enemies pr es sc = (pr', es', sc') \<Longrightarrow>
     map position es' = map position es
     \<and> position pr' = position pr \<and> age pr' = age pr \<and> owner_type pr' = owner_type pr"
  by (induction es arbitrary: pr' es' sc')
     (auto simp add: Let_def Enemy_take_damage_frame destroy_def split: if_splits prod.splits)

lemma projectile_vs_life_spheres_frame:
  "projectile_vs_life_spheres pr ss p = (pr', ss', p') \<Longrightarrow>
     map position ss' = map position ss
     \<and> shoot_cooldown p' = shoot_cooldown p \<and> can_shoot p' = can_shoot p
     \<and> position pr' = position pr \<and> age pr' = age pr \<and> owner_type pr' = owner_type pr"
  by (induction ss arbitrary: pr' ss' p')
     (auto simp add: collect_def add_life_def destroy_def split: if_splits prod.splits)

lemma projectile_vs_meteorites_frame:
  "position (projectile_vs_meteorites pr ms) = position pr
   \<and> age (projectile_vs_meteorites pr ms) = age pr
   \<and> owner_type (projectile_vs_meteorites pr ms) = owner_type pr"
  by (induction ms) (auto simp add: destroy_def)

lemma Player_take_damage_frame:
  "shoot_cooldown (Player_take_damage p) = shoot_cooldown p
   \<and> can_shoot (Player_take_damage p) = can_shoot p
   \<and> position (Player_take_damage p) = position p"
  by (simp add: Player_take_damage_def destroy_def Let_def)

lemma handle_projectile_frame:
  assumes "handle_projectile pr g = (pr', g')"
  shows "\<exists>es sc ss p. g' = g\<lparr>enemies := es, score := sc, life_spheres := ss, player := p\<rparr>
           \<and> map position es = map position (enemies g)
           \<and> map position ss = map position (life_spheres g)
           \<and> shoot_cooldown p = shoot_cooldown (player g) \<and> can_shoot p = can_shoot (player g)"
    and "position pr' = position pr \<and> age pr' = age pr \<and> owner_type pr' = owner_type pr"
proof -
  consider (pl) "is_player_projectile pr"
    | (en) "\<not> is_player_projectile pr" "is_enemy_projectile pr"
    | (no) "\<not> is_player_projectile pr" "\<not> is_enemy_projectile pr" by blast
  then have "(\<exists>es sc ss p. g' = g\<lparr>enemies := es, score := sc, life_spheres := ss, player := p\<rparr>
           \<and> map position es = map position (enemies g)
           \<and> map position ss = map position (life_spheres g)
           \<and> shoot_cooldown p = shoot_cooldown (player g) \<and> can_shoot p = can_shoot (player g))
        \<and> position pr' = position pr \<and> age pr' = age pr \<and> owner_type pr' = owner_type pr"
  proof cases
    case pl
    obtain pr1 es sc where a: "projectile_vs_enemies pr (enemies g) (score g) = (pr1, es, sc)"
      by (cases "projectile_vs_enemies pr (enemies g) (score g)")
    obtain pr2 ss p where b: "projectile_vs_life_spheres pr1 (life_spheres g) (player g) = (pr2, ss, p)"
      by (cases "projectile_vs_life_spheres pr1 (life_spheres g) (player g)")
    have "pr' = projectile_vs_meteorites pr2 (meteorites g)"
      "g' = g\<lparr>enemies := es, score := sc, life_spheres := ss, player := p\<rparr>"
      using assms pl a b by (simp_all add: handle_projectile_def)
    then show ?thesis
      using projectile_vs_enemies_frame [OF a] projectile_vs_life_spheres_frame [OF b]
        projectile_vs_meteorites_frame [of pr2 "meteorites g"]
      by (intro conjI exI [of _ es] exI [of _ sc] exI [of _ ss] exI [of _ p]) simp_all
  next
    case en
    obtain pr1 p where c: "(if check_collision pr (player g)
                            then (destroy pr, Player_take_damage (player g))
                            else (pr, player g)) = (pr1, p)"
      by (cases "check_collision pr (player g)") simp_all
    then have f: "position pr1 = position pr" "age pr1 = age pr" "owner_type pr1 = owner_type pr"
      "shoot_cooldown p = shoot_cooldown (player g)" "can_shoot p = can_shoot (player g)"
      by (auto simp add: destroy_def Player_take_damage_frame split: if_splits)
    have "pr' = projectile_vs_meteorites pr1 (meteorites g)"
      "g' = g\<lparr>enemies := enemies g, score := score g, life_spheres := life_spheres g, player := p\<rparr>"
      using assms en c by (simp_all add: handle_projectile_def)
    then show ?thesis
      using f projectile_vs_meteorites_frame [of pr1 "meteorites g"]
      by (intro conjI exI [of _ "enemies g"] exI [of _ "score g"] exI [of _ "life_spheres g"] exI [of _ p])
         simp_all
  next
    case no
    then have "pr' = pr"
      "g' = g\<lparr>enemies := enemies g, score := score g, life_spheres := life_spheres g, player := player g\<rparr>"
      using assms by (simp_all add: handle_projectile_def)
    then show ?thesis by blast
  qed
  then show "\<exists>es sc ss p. g' = g\<lparr>enemies := es, score := sc, life_spheres := ss, player := p\<rparr>
           \<and> map position es = map position (enemies g)
           \<and> map position ss = map position (life_spheres g)
           \<and> shoot_cooldown p = shoot_cooldown (player g) \<and> can_shoot p = can_shoot (player g)"
    and "position pr' = position pr \<and> age pr' = age pr \<and> owner_type pr' = owner_type pr"
    by blast+
qed

lemma handle_projectiles_frame:
  "handle_projectiles prs g = (prs', g') \<Longrightarrow>
     (\<exists>es sc ss p. g' = g\<lparr>enemies := es, score := sc, life_spheres := ss, player := p\<rparr>
           \<and> map position es = map position (enemies g)
           \<and> map position ss = map position (life_spheres g)
           \<and> shoot_cooldown p = shoot_cooldown (player g) \<and> can_shoot p = can_shoot (player g))
     \<and> map position prs' = map position prs \<and> map age prs' = map age prs
     \<and> map owner_type prs' = map owner_type prs"
proof (induction prs arbitrary: g prs' g')
  case Nil
  then have "prs' = []"
    "g' = g\<lparr>enemies := enemies g, score := score g, life_spheres := life_spheres g, player := player g\<rparr>"
    by simp_all
  then show ?case by blast
next
  case (Cons pr prs)
  obtain q g1 where a: "handle_projectile pr g = (q, g1)" by (cases "handle_projectile pr g")
  obtain qs g2 where b: "handle_projectiles prs g1 = (qs, g2)" by (cases "handle_projectiles prs g1")
  have res: "prs' = q # qs" "g' = g2" using Cons.prems a b by simp_all
  from handle_projectile_frame(1) [OF a] obtain es sc ss p where
    g1: "g1 = g\<lparr>enemies := es, score := sc, life_spheres := ss, player := p\<rparr>"
    "map position es = map position (enemies g)" "map position ss = map position (life_spheres g)"
    "shoot_cooldown p = shoot_cooldown (player g)" "can_shoot p = can_shoot (player g)"
    by blast
  from Cons.IH [OF b] obtain es2 sc2 ss2 p2 where
    g2: "g2 = g1\<lparr>enemies := es2, score := sc2, life_spheres := ss2, player := p2\<rparr>"
    "map position es2 = map position (enemies g1)" "map position ss2 = map position (life_spheres g1)"
    "shoot_cooldown p2 = shoot_cooldown (player g1)" "can_shoot p2 = can_shoot (player g1)"
    and qs: "map position qs = map position prs" "map age qs = map age prs"
    "map owner_type qs = map owner_type prs"
    by blast
  have "g' = g\<lparr>enemies := es2, score := sc2, life_spheres := ss2, player := p2\<rparr>"
    using res g1(1) g2(1) by simp
  moreover have "map position es2 = map position (enemies g)"
    "map position ss2 = map position (life_spheres g)"
    "shoot_cooldown p2 = shoot_cooldown (player g)" "can_shoot p2 = can_shoot (player g)"
    using g1 g2 by simp_all
  moreover have "map position prs' = map position (pr # prs)" "map age prs' = map age (pr # prs)"
    "map owner_type prs' = map owner_type (pr # prs)"
    using res qs handle_projectile_frame(2) [OF a] by simp_all
  ultimately show ?case by blast
qed

lemma handle_collisions_Inr:
  "\<exists>g'. handle_collisions g = Inr g'
     \<and> meteorites g' = meteorites g
     \<and> enemy_spawn_timer g' = enemy_spawn_timer g
     \<and> life_sphere_spawn_timer g' = life_sphere_spawn_timer g
     \<and> paused g' = paused g
     \<and> shoot_cooldown (player g') = shoot_cooldown (player g)
     \<and> can_shoot (player g') = can_shoot (player g)
     \<and> map position (enemies g') = map position (enemies g)
     \<and> map position (life_spheres g') = map position (life_spheres g)
     \<and> map position (projectiles g') = map position (projectiles g)
     \<and> map age (projectiles g') = map age (projectiles g)
     \<and> map owner_type (projectiles g') = map owner_type (projectiles g)"
proof -
  obtain sc x c where m: "player_vs_meteorites (meteorites g) g =
      Inr (g\<lparr>camera := (camera g)\<lparr>cam_position := c\<rparr>, score := sc,
             player := (player g)\<lparr>position := x\<rparr>\<rparr>)"
    using player_vs_meteorites_Inr by blast
  define g1 where "g1 = g\<lparr>camera := (camera g)\<lparr>cam_position := c\<rparr>, score := sc,
             player := (player g)\<lparr>position := x\<rparr>\<rparr>"
  obtain p2 ss where s: "player_vs_life_spheres (life_spheres g1) (player g1) = (p2, ss)"
    by (cases "player_vs_life_spheres (life_spheres g1) (player g1)")
  obtain p3 es where e: "player_vs_enemies (enemies g1) p2 = (p3, es)"
    by (cases "player_vs_enemies (enemies g1) p2")
  define g3 where "g3 = g1\<lparr>player := p3, life_spheres := ss, enemies := es\<rparr>"
  obtain prs g4 where h: "handle_projectiles (projectiles g1) g3 = (prs, g4)"
    by (cases "handle_projectiles (projectiles g1) g3")
  define g5 where "g5 = g4\<lparr>projectiles := prs\<rparr>"
  define g6 where "g6 = (if \<not> is_alive (player g5) then g5\<lparr>game_over := True\<rparr> else g5)"
  have r: "handle_collisions g = Inr g6"
    using m s e h by (simp add: handle_collisions_def g1_def g3_def g5_def g6_def)
  from player_vs_life_spheres_shape [OF s] obtain n where
    p2: "p2 = (player g1)\<lparr>lives := n\<rparr>" and ss: "map position ss = map position (life_spheres g1)"
    by blast
  from player_vs_enemies_shape [OF e] obtain a n' t where
    p3: "p3 = p2\<lparr>alive := a, lives := n', damage_flash_timer := t\<rparr>"
    and es: "map position es = map position (enemies g1)"
    by blast
  from handle_projectiles_frame [OF h] obtain es4 sc4 ss4 p4 where
    g4: "g4 = g3\<lparr>enemies := es4, score := sc4, life_spheres := ss4, player := p4\<rparr>"
    and f4: "map position es4 = map position (enemies g3)"
      "map position ss4 = map position (life_spheres g3)"
      "shoot_cooldown p4 = shoot_cooldown (player g3)" "can_shoot p4 = can_shoot (player g3)"
    and prs: "map position prs = map position (projectiles g1)" "map age prs = map age (projectiles g1)"
      "map owner_type prs = map owner_type (projectiles g1)"
    by blast
  have "meteorites g6 = meteorites g" "enemy_spawn_timer g6 = enemy_spawn_timer g"
    "life_sphere_spawn_timer g6 = life_sphere_spawn_timer g" "paused g6 = paused g"
    by (simp_all add: g6_def g5_def g4 g3_def g1_def)
  moreover have "shoot_cooldown (player g6) = shoot_cooldown (player g)"
    "can_shoot (player g6) = can_shoot (player g)"
    using f4(3,4) by (simp_all add: g6_def g5_def g4 g3_def p3 p2 g1_def)
  moreover have "map position (enemies g6) = map position (enemies g)"
    using f4(1) es by (simp add: g6_def g5_def g4 g3_def g1_def)
  moreover have "map position (life_spheres g6) = map position (life_spheres g)"
    using f4(2) ss by (simp add: g6_def g5_def g4 g3_def g1_def)
  moreover have "map position (projectiles g6) = map position (projectiles g)"
    "map age (projectiles g6) = map age (projectiles g)"
    "map owner_type (projectiles g6) = map owner_type (projectiles g)"
    using prs by (simp_all add: g6_def g5_def g1_def)
  ultimately show ?thesis using r by blast
qed

section \<open>The meteorite list\<close>

lemma update_ship_animation_frame:
  "\<exists>a b c d e. update_ship_animation g env dt =
      g\<lparr>ship_roll := a, ship_pitch_offset := b, previous_camera_yaw := c,
        previous_camera_pitch := d, cockpit_sway := e\<rparr>"
  unfolding update_ship_animation_def Let_def by blast

lemma update_spawning_meteorites: "meteorites (update_spawning g env dt) = meteorites g"
  by (simp add: update_spawning_def spawn_enemy_def spawn_life_sphere_def Let_def)

lemma update_spawning_zero:
  "enemy_spawn_timer g < ENEMY_SPAWN_INTERVAL \<Longrightarrow>
   life_sphere_spawn_timer g < LIFE_SPHERE_SPAWN_INTERVAL \<Longrightarrow> update_spawning g env 0 = g"
  by (simp add: update_spawning_def Let_def)

lemma Meteorite_update_frame:
  "alive (Meteorite_update m dt) = alive m \<and> msize (Meteorite_update m dt) = msize m
   \<and> radius (Meteorite_update m dt) = radius m
   \<and> rotation_speed (Meteorite_update m dt) = rotation_speed m
   \<and> velocity (Meteorite_update m dt) = velocity m"
  by (simp add: Meteorite_update_def Entity_update_def rotate_def split: prod.splits)

lemma cleanup_entities_meteorites: "meteorites (cleanup_entities g) = meteorites g"
  by (simp add: cleanup_entities_def)

text \<open>
  C10.  \<open>Game.update\<close> never raises and keeps the meteorite list: when the game is
  paused or over the list is untouched, otherwise it is the old list with every
  meteorite updated in place (same length, same order, same \<open>alive\<close> flags and sizes).
  Collision handling and cleanup leave the list as it is, spawning adds no meteorite,
  and a meteorite's own update does not change its \<open>alive\<close> flag.
\<close>

theorem meteorites_fixed:
  "(\<exists>g'. update g env dt = Inr g'
      \<and> meteorites g' = (if paused g \<or> game_over g then meteorites g
                          else map (\<lambda>m. Meteorite_update m dt) (meteorites g))
      \<and> length (meteorites g') = length (meteorites g)
      \<and> map alive (meteorites g') = map alive (meteorites g)
      \<and> map msize (meteorites g') = map msize (meteorites g))
   \<and> (\<exists>g'. handle_collisions g = Inr g' \<and> meteorites g' = meteorites g)
   \<and> meteorites (cleanup_entities g) = meteorites g
   \<and> alive (Meteorite_update m dt) = alive m"
proof -
  have c: "\<exists>g'. handle_collisions g = Inr g' \<and> meteorites g' = meteorites g"
    using handle_collisions_Inr [of g] by blast
  have u: "\<exists>g'. update g env dt = Inr g'
      \<and> meteorites g' = (if paused g \<or> game_over g then meteorites g
                          else map (\<lambda>m. Meteorite_update m dt) (meteorites g))"
  proof (cases "paused g \<or> game_over g")
    case True
    then show ?thesis by (simp add: update_def)
  next
    case False
    define g2 where "g2 = (update_ship_animation g env dt)
                          \<lparr>player := Player_update (player (update_ship_animation g env dt)) dt\<rparr>"
    obtain a b c d e where an: "update_ship_animation g env dt =
      g\<lparr>ship_roll := a, ship_pitch_offset := b, previous_camera_yaw := c,
        previous_camera_pitch := d, cockpit_sway := e\<rparr>"
      using update_ship_animation_frame by blast
    have m2: "meteorites g2 = meteorites g" by (simp add: g2_def an)
    obtain es new where ue: "update_enemies (enemies (update_ship_animation g env dt)) dt g2
        = Inr (es, g2\<lparr>projectiles := projectiles g2 @ new\<rparr>)"
      using update_enemies_Inr [of "enemies (update_ship_animation g env dt)" dt g2] by blast
    define g8 where "g8 = update_spawning
       (g2\<lparr>projectiles := projectiles g2 @ new, enemies := es,
           meteorites := map (\<lambda>m. Meteorite_update m dt) (meteorites g2),
           life_spheres := update_life_spheres (life_spheres g2) dt env,
           projectiles := map (\<lambda>p. Projectile_update p dt) (projectiles g2 @ new)\<rparr>) env dt"
    have m8: "meteorites g8 = map (\<lambda>m. Meteorite_update m dt) (meteorites g)"
      by (simp add: g8_def update_spawning_meteorites m2)
    obtain g9 where hc: "handle_collisions g8 = Inr g9" "meteorites g9 = meteorites g8"
      using handle_collisions_Inr [of g8] by blast
    have "update g env dt = Inr (cleanup_entities g9)"
      using False ue hc(1) by (simp add: update_def Let_def g2_def [symmetric] g8_def)
    then show ?thesis using False hc(2) m8 by (simp add: cleanup_entities_meteorites)
  qed
  then obtain g' where g': "update g env dt = Inr g'"
    "meteorites g' = (if paused g \<or> game_over g then meteorites g
                          else map (\<lambda>m. Meteorite_update m dt) (meteorites g))"
    by blast
  have "length (meteorites g') = length (meteorites g)"
    "map alive (meteorites g') = map alive (meteorites g)"
    "map msize (meteorites g') = map msize (meteorites g)"
    using g'(2) by (simp_all add: Meteorite_update_frame comp_def)
  then show ?thesis using g' c
    by (simp add: cleanup_entities_meteorites Meteorite_update_frame)
qed

section \<open>A tick with no elapsed time\<close>

lemma Vector3_add_mul_zero: "Vector3_add a (Vector3_mul v 0) = a"
  by (simp add: Vector3_add_def Vector3_mul_def)

lemma Player_update_zero: "Player_update p 0 = p"
  by (simp add: Player_update_def Entity_update_def Vector3_add_mul_zero Let_def)

lemma Meteorite_update_zero: "Meteorite_update m 0 = m"
  by (simp add: Meteorite_update_def Entity_update_def rotate_def Vector3_add_mul_zero
        split: prod.splits)

lemma Projectile_update_zero:
  "position (Projectile_update p 0) = position p \<and> age (Projectile_update p 0) = age p
   \<and> owner_type (Projectile_update p 0) = owner_type p"
  by (simp add: Projectile_update_def Entity_update_def destroy_def Vector3_add_mul_zero Let_def)

lemma LifeSphere_update_zero:
  "position (LifeSphere_update s 0 t) =
     Vector3 (vx (position s)) (vy (position s) + sin (of_int t * 0.002) * 0.01) (vz (position s))"
  by (simp add: LifeSphere_update_def Entity_update_def rotate_def Vector3_add_mul_zero Let_def
        split: prod.splits)

lemma update_life_spheres_zero:
  "map position (update_life_spheres ss 0 env) =
     map (\<lambda>(i, s). Vector3 (vx (position s)) (vy (position s) + sin (of_int (ticks_at env i) * 0.002) * 0.01)
                      (vz (position s))) (enumerate 0 ss)"
  by (simp add: update_life_spheres_def LifeSphere_update_zero comp_def case_prod_unfold)

lemma map_pair_eq:
  assumes a: "map f xs = map f ys" and b: "map h xs = map h ys"
  shows "map (\<lambda>p. (f p, h p)) xs = map (\<lambda>p. (f p, h p)) ys"
proof (rule nth_equalityI)
  have len: "length xs = length ys" using a by (rule map_eq_imp_length_eq)
  show "length (map (\<lambda>p. (f p, h p)) xs) = length (map (\<lambda>p. (f p, h p)) ys)"
    using len by simp
  fix i assume "i < length (map (\<lambda>p. (f p, h p)) xs)"
  then have i: "i < length xs" "i < length ys" using len by simp_all
  have "map f xs ! i = map f ys ! i" "map h xs ! i = map h ys ! i" using a b by simp_all
  then have "f (xs ! i) = f (ys ! i)" "h (xs ! i) = h (ys ! i)" using i by simp_all
  then show "map (\<lambda>p. (f p, h p)) xs ! i = map (\<lambda>p. (f p, h p)) ys ! i"
    using i by simp
qed

text \<open>
  C3, amended.  In the running state, with both spawn timers below their intervals,
  a tick of \<open>Game.update\<close> with \<open>dt = 0\<close> returns and leaves unchanged: the player's
  shoot cooldown and \<open>can_shoot\<close> flag, both spawn timers, the paused flag and the
  whole meteorite list.  The enemies that remain keep their positions; the projectiles
  that remain keep position and age, apart from those fired by enemies during the
  tick, which have age 0.  Life spheres are not covered: each one that remains has its
  height moved by \<open>sin (ticks * 0.002) * 0.01\<close>, the wall-clock bob, whatever \<open>dt\<close>
  is.  The score, the player's position and the game-over flag are not covered either:
  collision handling runs in full.
\<close>

theorem zero_dt_tick:
  assumes "\<not> paused g" "\<not> game_over g"
    and "enemy_spawn_timer g < ENEMY_SPAWN_INTERVAL"
    and "life_sphere_spawn_timer g < LIFE_SPHERE_SPAWN_INTERVAL"
  shows "\<exists>g'. update g env 0 = Inr g'
     \<and> shoot_cooldown (player g') = shoot_cooldown (player g)
     \<and> can_shoot (player g') = can_shoot (player g)
     \<and> enemy_spawn_timer g' = enemy_spawn_timer g
     \<and> life_sphere_spawn_timer g' = life_sphere_spawn_timer g
     \<and> paused g' = paused g
     \<and> meteorites g' = meteorites g
     \<and> subseq (map position (enemies g')) (map position (enemies g))
     \<and> (\<exists>new. (\<forall>p \<in> set new. age p = 0 \<and> owner_type p = ''enemy'')
           \<and> subseq (map (\<lambda>p. (position p, age p)) (projectiles g'))
                     (map (\<lambda>p. (position p, age p)) (projectiles g @ new)))
     \<and> subseq (map position (life_spheres g'))
          (map (\<lambda>(i, s). Vector3 (vx (position s))
                            (vy (position s) + sin (of_int (ticks_at env i) * 0.002) * 0.01)
                            (vz (position s)))
             (enumerate 0 (life_spheres g)))"
proof -
  obtain a b c d e where an: "update_ship_animation g env 0 =
      g\<lparr>ship_roll := a, ship_pitch_offset := b, previous_camera_yaw := c,
        previous_camera_pitch := d, cockpit_sway := e\<rparr>"
    using update_ship_animation_frame by blast
  define g2 where "g2 = (update_ship_animation g env 0)
                          \<lparr>player := Player_update (player (update_ship_animation g env 0)) 0\<rparr>"
  have g2: "g2 = update_ship_animation g env 0" by (simp add: g2_def Player_update_zero)
  obtain es new where ue: "update_enemies (enemies (update_ship_animation g env 0)) 0 g2
        = Inr (es, g2\<lparr>projectiles := projectiles g2 @ new\<rparr>)"
    and es: "map position es = map (\<lambda>e. Vector3_add (position e) (Vector3_mul (velocity e) 0))
                                 (enemies (update_ship_animation g env 0))"
    and new: "\<forall>p \<in> set new. age p = 0 \<and> owner_type p = ''enemy''"
    using update_enemies_Inr [of "enemies (update_ship_animation g env 0)" 0 g2]
    by (elim exE conjE) (rule that)
  have es': "map position es = map position (enemies g)"
    using es by (simp add: Vector3_add_mul_zero an)
  define g7 where "g7 = g2\<lparr>enemies := es,
           meteorites := map (\<lambda>m. Meteorite_update m 0) (meteorites g2),
           life_spheres := update_life_spheres (life_spheres g2) 0 env,
           projectiles := map (\<lambda>p. Projectile_update p 0) (projectiles g2) @
                          map (\<lambda>p. Projectile_update p 0) new\<rparr>"
  have t7: "enemy_spawn_timer g7 < ENEMY_SPAWN_INTERVAL"
    "life_sphere_spawn_timer g7 < LIFE_SPHERE_SPAWN_INTERVAL"
    using assms(3,4) by (simp_all add: g7_def g2 an)
  have sp: "update_spawning g7 env 0 = g7" using t7 by (rule update_spawning_zero)
  obtain g9 where hc: "handle_collisions g7 = Inr g9"
    and f9: "meteorites g9 = meteorites g7"
     "enemy_spawn_timer g9 = enemy_spawn_timer g7"
     "life_sphere_spawn_timer g9 = life_sphere_spawn_timer g7"
     "paused g9 = paused g7"
     "shoot_cooldown (player g9) = shoot_cooldown (player g7)"
     "can_shoot (player g9) = can_shoot (player g7)"
     "map position (enemies g9) = map position (enemies g7)"
     "map position (life_spheres g9) = map position (life_spheres g7)"
     "map position (projectiles g9) = map position (projectiles g7)"
     "map age (projectiles g9) = map age (projectiles g7)"
    using handle_collisions_Inr [of g7] by (elim exE conjE) (rule that)
  have u: "update g env 0 = Inr (cleanup_entities g9)"
    using assms(1,2) ue hc [unfolded g7_def] sp [unfolded g7_def]
    by (simp add: update_def Let_def g2_def [symmetric])
  have A: "shoot_cooldown (player (cleanup_entities g9)) = shoot_cooldown (player g)"
    "can_shoot (player (cleanup_entities g9)) = can_shoot (player g)"
    "enemy_spawn_timer (cleanup_entities g9) = enemy_spawn_timer g"
    "life_sphere_spawn_timer (cleanup_entities g9) = life_sphere_spawn_timer g"
    "paused (cleanup_entities g9) = paused g"
    using f9 by (simp_all add: cleanup_entities_def g7_def g2 an)
  have B: "meteorites (cleanup_entities g9) = meteorites g"
    using f9(1) by (simp add: cleanup_entities_def g7_def g2 an Meteorite_update_zero)
  have C: "subseq (map position (enemies (cleanup_entities g9))) (map position (enemies g))"
  proof -
    have "subseq (map position (filter is_alive (enemies g9))) (map position (enemies g9))"
      by (intro subseq_map subseq_filter_left)
    then show ?thesis using f9(7) es' by (simp add: cleanup_entities_def g7_def)
  qed
  have D: "subseq (map (\<lambda>p. (position p, age p)) (projectiles (cleanup_entities g9)))
                     (map (\<lambda>p. (position p, age p)) (projectiles g @ new))"
  proof -
    have "map (\<lambda>p. (position p, age p)) (projectiles g9)
          = map (\<lambda>p. (position p, age p)) (projectiles g7)"
      using f9(9,10) by (rule map_pair_eq)
    also have "\<dots> = map (\<lambda>p. (position p, age p)) (projectiles g @ new)"
      by (simp add: g7_def g2 an Projectile_update_zero comp_def)
    finally have eq: "map (\<lambda>p. (position p, age p)) (projectiles g9)
          = map (\<lambda>p. (position p, age p)) (projectiles g @ new)" .
    have "subseq (map (\<lambda>p. (position p, age p)) (filter is_alive (projectiles g9)))
                 (map (\<lambda>p. (position p, age p)) (projectiles g9))"
      by (intro subseq_map subseq_filter_left)
    then show ?thesis using eq by (simp add: cleanup_entities_def)
  qed
  have E: "subseq (map position (life_spheres (cleanup_entities g9)))
          (map (\<lambda>(i, s). Vector3 (vx (position s))
                            (vy (position s) + sin (of_int (ticks_at env i) * 0.002) * 0.01)
                            (vz (position s)))
             (enumerate 0 (life_spheres g)))"
  proof -
    have "subseq (map position (filter is_alive (life_spheres g9))) (map position (life_spheres g9))"
      by (intro subseq_map subseq_filter_left)
    moreover have "map position (life_spheres g9) = map position (update_life_spheres (life_spheres g) 0 env)"
      using f9(8) by (simp add: g7_def g2 an)
    ultimately show ?thesis
      by (simp add: cleanup_entities_def update_life_spheres_zero)
  qed
  have D': "\<exists>new. (\<forall>p \<in> set new. age p = 0 \<and> owner_type p = ''enemy'')
           \<and> subseq (map (\<lambda>p. (position p, age p)) (projectiles (cleanup_entities g9)))
                     (map (\<lambda>p. (position p, age p)) (projectiles g @ new))"
    using new D by (intro exI [of _ new] conjI)
  show ?thesis
    by (intro exI [of _ "cleanup_entities g9"] conjI u A B C D' E)
qed

section \<open>A tick with no elapsed time, on a concrete run\<close>

lemma length_z: "Vector3_length (Vector3 0 0 c) = \<bar>c\<bar>"
  by (simp add: Vector3_length_def)

lemma sin_one_pos: "0 < sin (1::real)"
proof -
  have "(1::real) < pi" using pi_ge_two by linarith
  then show ?thesis by (simp add: sin_gt_zero)
qed

lemmas tick_simps =
  Game_init_Inr Player_init_def Enemy_init_def LifeSphere_init_def Meteorite_init_def
  update_def update_ship_animation_def normalize_yaw_delta_def wrap_above_id wrap_below_id
  Player_update_def Meteorite_update_def LifeSphere_update_def update_life_spheres_def
  Projectile_update_def update_spawning_def spawn_enemy_def spawn_life_sphere_def
  cleanup_entities_def
  Enemy_update_def move_toward_target_def Enemy_can_shoot_def
  Vector3_normalize_Inr length_z vec_simps
  handle_collisions_def handle_projectile_def is_player_projectile_def is_enemy_projectile_def
  check_collision_eval Enemy_take_damage_def Player_take_damage_def add_life_def collect_def
  get_points_def resolve_collision_def
  ent_simps Let_def
  PLAYER_STARTING_LIVES_def ENEMY_HEALTH_def ENEMY_POINTS_def LIFE_SPHERE_SIZE_def
  COLLISION_PUSH_BACK_def METEORITE_COLLISION_PENALTY_def
  SHIP_ROLL_SENSITIVITY_def SHIP_PITCH_SENSITIVITY_def SHIP_ANIMATION_DAMPING_def
  MAX_SHIP_ROLL_def MAX_SHIP_PITCH_OFFSET_def ENEMY_SPEED_def ENEMY_SPAWN_DISTANCE_def
  ENEMY_SPAWN_INTERVAL_def ENEMY_SHOOT_INTERVAL_def ENEMY_SHOOT_RANGE_def
  LIFE_SPHERE_SPAWN_INTERVAL_def LIFE_SPHERE_ROTATION_SPEED_def

lemma long_tick_state:
  "bind_err (Game_init seed_draw) (\<lambda>g0. update g0 (quiet_env 0) 700) = Inr state_after_long_tick"
  by (simp add: tick_simps)

lemma zero_tick_outcome:
  "bind_err (update state_after_long_tick (quiet_env 500) 0)
      (\<lambda>g2. Inr (map position (life_spheres g2), position (player g2), score g2))
    = Inr ([Vector3 0 (sin 1 / 100) (- 35)], Vector3 0 0 10, - 2)"
proof -
  have nn: "\<not> 8051 + sin 1 * sin 1 / 2500 < (0::real)"
    using zero_le_square [of "sin (1::real)"] by linarith
  show ?thesis by (simp add: tick_simps nn)
qed

text \<open>
  C3, as stated, fails on a reachable state.  From the initial game (player at the
  origin, the first seeded meteorite 30 units ahead and drifting towards the player),
  one tick of 700 seconds brings that meteorite within reach, costs one point, pushes
  the player to z = 5, where the two still overlap, and spawns one enemy and one life
  sphere.  A second tick with \<open>dt = 0\<close>, sampled at 500 ms of wall-clock time, then
  moves the life sphere (by \<open>sin 1 / 100\<close> in height), pushes the player again (to
  z = 10) and lowers the score (from -1 to -2).
\<close>

theorem zero_dt_tick_moves_counterexample:
  "bind_err (Game_init seed_draw)
     (\<lambda>g0. bind_err (update g0 (quiet_env 0) 700)
        (\<lambda>g1. bind_err (update g1 (quiet_env 500) 0)
           (\<lambda>g2. Inr (map position (life_spheres g2) = map position (life_spheres g1),
                        position (player g2) = position (player g1),
                        score g2 = score g1))))
   = Inr (False, False, False)"
proof -
  obtain g0 where a: "Game_init seed_draw = Inr g0"
    and b: "update g0 (quiet_env 0) 700 = Inr state_after_long_tick"
    using long_tick_state by (cases "Game_init seed_draw") simp_all
  obtain g2 where c: "update state_after_long_tick (quiet_env 500) 0 = Inr g2"
    and d: "map position (life_spheres g2) = [Vector3 0 (sin 1 / 100) (- 35)]"
      "position (player g2) = Vector3 0 0 10" "score g2 = - 2"
    using zero_tick_outcome by (cases "update state_after_long_tick (quiet_env 500) 0") simp_all
  have "bind_err (Game_init seed_draw)
     (\<lambda>g0. bind_err (update g0 (quiet_env 0) 700)
        (\<lambda>g1. bind_err (update g1 (quiet_env 500) 0)
           (\<lambda>g2. Inr (map position (life_spheres g2) = map position (life_spheres g1),
                        position (player g2) = position (player g1),
                        score g2 = score g1))))
    = Inr (map position (life_spheres g2) = map position (life_spheres state_after_long_tick),
           position (player g2) = position (player state_after_long_tick),
           score g2 = score state_after_long_tick)"
    by (simp only: a b c bind_err_Inr)
  also have "\<dots> = Inr (False, False, False)"
    using sin_one_pos by (simp add: d)
  finally show ?thesis .
qed

theorem zero_dt_tick_witness:
  "\<not> paused state_after_long_tick \<and> \<not> game_over state_after_long_tick
   \<and> enemy_spawn_timer state_after_long_tick < ENEMY_SPAWN_INTERVAL
   \<and> life_sphere_spawn_timer state_after_long_tick < LIFE_SPHERE_SPAWN_INTERVAL
   \<and> (\<exists>g'. update state_after_long_tick (quiet_env 500) 0 = Inr g'
     \<and> shoot_cooldown (player g') = shoot_cooldown (player state_after_long_tick)
     \<and> can_shoot (player g') = can_shoot (player state_after_long_tick)
     \<and> enemy_spawn_timer g' = enemy_spawn_timer state_after_long_tick
     \<and> life_sphere_spawn_timer g' = life_sphere_spawn_timer state_after_long_tick
     \<and> paused g' = paused state_after_long_tick
     \<and> meteorites g' = meteorites state_after_long_tick
     \<and> subseq (map position (enemies g')) (map position (enemies state_after_long_tick))
     \<and> (\<exists>new. (\<forall>p \<in> set new. age p = 0 \<and> owner_type p = ''enemy'')
           \<and> subseq (map (\<lambda>p. (position p, age p)) (projectiles g'))
                     (map (\<lambda>p. (position p, age p)) (projectiles state_after_long_tick @ new)))
     \<and> subseq (map position (life_spheres g'))
          (map (\<lambda>(i, s). Vector3 (vx (position s))
                            (vy (position s) + sin (of_int (ticks_at (quiet_env 500) i) * 0.002) * 0.01)
                            (vz (position s)))
             (enumerate 0 (life_spheres state_after_long_tick))))"
proof -
  have h: "\<not> paused state_after_long_tick" "\<not> game_over state_after_long_tick"
    "enemy_spawn_timer state_after_long_tick < ENEMY_SPAWN_INTERVAL"
    "life_sphere_spawn_timer state_after_long_tick < LIFE_SPHERE_SPAWN_INTERVAL"
    by (simp_all add: ENEMY_SPAWN_INTERVAL_def LIFE_SPHERE_SPAWN_INTERVAL_def)
  show ?thesis
    by (intro conjI h zero_dt_tick [OF h])
qed

end
